theory Spec2Isabelle
  imports Main "HOL-Library.Sublist"
begin

section \<open>The template compiler of DuWebKit (scripts/compiler.py)\<close>

text \<open>
  A shallow embedding of class \<open>Compiler\<close>. Python strings are \<open>string\<close>, the
  dictionaries \<open>_assign_dict\<close> and \<open>built_html\<close> are maps, \<open>built_dict\<close> is a set.
  The file system, the log and standard output are an explicit \<open>world\<close> that every
  operation threads through; an exception is a value \<open>Inl e\<close>. The modules
  \<open>scripts.utils.regex\<close>, \<open>scripts.utils.dir\<close>, \<open>scripts.app\<close>, \<open>scripts.data\<close>,
  \<open>scripts.utils.dumark\<close> and the third-party services (markdown, csscompressor, jsmin,
  htmlmin) are not part of the sources: they are the fields of the record \<open>env\<close>, and
  every general theorem holds for all of them.
\<close>

subsection \<open>Python string operations\<close>

text \<open>\<open>s.find(sub)\<close>: the index of the first occurrence, \<open>None\<close> for Python's \<open>-1\<close>.\<close>

fun find_str :: "string \<Rightarrow> string \<Rightarrow> nat option" where
  "find_str [] sub = (if sub = [] then Some 0 else None)"
| "find_str (c # cs) sub =
     (if prefix sub (c # cs) then Some 0 else map_option Suc (find_str cs sub))"

text \<open>
  \<open>s.replace(old, new)\<close>: every non-overlapping occurrence, left to right; an empty
  \<open>old\<close> matches before every character and at the end.
\<close>

fun replace_str :: "string \<Rightarrow> string \<Rightarrow> string \<Rightarrow> string" where
  "replace_str [] old new = (if old = [] then new else [])"
| "replace_str (c # cs) old new =
     (if old = [] then new @ c # replace_str cs old new
      else if prefix old (c # cs) then new @ replace_str (drop (length old - 1) cs) old new
      else c # replace_str cs old new)"

text \<open>\<open>s.strip(chars)\<close> for a single character.\<close>

definition strip_char :: "char \<Rightarrow> string \<Rightarrow> string" where
  "strip_char c s = rev (dropWhile (\<lambda>x. x = c) (rev (dropWhile (\<lambda>x. x = c) s)))"

text \<open>\<open>s.split(sep)\<close> for a single-character separator: never the empty list.\<close>

fun split_on :: "char \<Rightarrow> string \<Rightarrow> string list" where
  "split_on sep [] = [[]]"
| "split_on sep (c # cs) =
     (if c = sep then [] # split_on sep cs
      else (case split_on sep cs of [] \<Rightarrow> [[c]] | l # ls \<Rightarrow> (c # l) # ls))"

text \<open>
  \<open>f.readlines()\<close> on the text of a file (newlines already translated to a line
  feed): the lines, each keeping its line feed.
\<close>

fun readlines :: "string \<Rightarrow> string list" where
  "readlines [] = []"
| "readlines (c # cs) =
     (if c = CHR 0x0A then [c] # readlines cs
      else (case readlines cs of [] \<Rightarrow> [[c]] | l # ls \<Rightarrow> (c # l) # ls))"

subsection \<open>Errors, effects and state\<close>

datatype error = IOError string | IndexError

datatype event =
    LogInfo string
  | LogWarning string
  | LogError string
  | Stdout string
  | FileRead string
  | FileWrite string string

text \<open>
  The world outside the compiler: the text of every readable file by path, the paths
  that cannot be opened for writing, and the trace of log records, prints, reads and
  writes in the order they happen.
\<close>

record world =
  files :: "string \<rightharpoonup> string"
  unwritable :: "string set"
  events :: "event list"

text \<open>The three slots of a \<open>Compiler\<close> instance.\<close>

record compiler =
  assign_dict :: "string \<rightharpoonup> string"
  built_dict :: "string set"
  built_html :: "string \<rightharpoonup> string"

text \<open>
  What the compiler imports. A pattern of \<open>Regex\<close> is its \<open>search\<close>: the groups of the
  first match, \<open>None\<close> when there is none; \<open>VARIABLE\<close> gives \<open>group(0)\<close> and \<open>group(1)\<close>.
  A catalog of \<open>Lang\<close> maps a name to the text \<open>str\<close> gives for its value.
\<close>

record env =
  ASSIGN :: "string \<Rightarrow> (string \<times> string) option"
  INCLUDE :: "string \<Rightarrow> string option"
  CSS :: "string \<Rightarrow> string option"
  JS :: "string \<Rightarrow> string option"
  IMAGE :: "string \<Rightarrow> (string \<times> string) option"
  PUBLICATION :: "string \<Rightarrow> string option"
  ART :: "string \<Rightarrow> string option"
  VARIABLE :: "string \<Rightarrow> (string \<times> string) option"
  markdown :: "string \<Rightarrow> string"
  css_compress :: "string \<Rightarrow> string"
  jsmin :: "string \<Rightarrow> string"
  html_minify :: "string \<Rightarrow> string"
  papers_fill_templates :: "string list \<Rightarrow> string list \<Rightarrow> string"
  arts_fill_templates :: "string list \<Rightarrow> string list \<Rightarrow> string"
  get_image :: "string \<Rightarrow> string \<Rightarrow> string"
  path_join :: "string \<Rightarrow> string \<Rightarrow> string"
  dir_templates :: string
  dir_builds :: string
  dir_css :: string
  dir_js :: string
  dir_images :: string
  minimize_css :: bool
  minimize_js :: bool
  minimize_html :: bool
  debug_html :: bool
  lang_en :: "string \<rightharpoonup> string"
  lang_cn :: "string \<rightharpoonup> string"
  lang_current :: "string \<rightharpoonup> string"

definition log_event :: "world \<Rightarrow> event \<Rightarrow> world" where
  "log_event w e = w\<lparr>events := events w @ [e]\<rparr>"

text \<open>\<open>open(p, 'r')\<close> and reading all of it; a missing file raises.\<close>

definition read_file :: "world \<Rightarrow> string \<Rightarrow> error + string \<times> world" where
  "read_file w p =
     (case files w p of
        None \<Rightarrow> Inl (IOError p)
      | Some text \<Rightarrow> Inr (text, log_event w (FileRead p)))"

text \<open>\<open>open(p, 'w')\<close> and writing \<open>text\<close>.\<close>

definition write_file :: "world \<Rightarrow> string \<Rightarrow> string \<Rightarrow> error + world" where
  "write_file w p text =
     (if p \<in> unwritable w then Inl (IOError p)
      else Inr (log_event (w\<lparr>files := (files w)(p \<mapsto> text)\<rparr>) (FileWrite p text)))"

definition backslash :: string where
  "backslash = [CHR 0x5C]"

text \<open>\<open>os.path.join(a, b).replace('\\', '/')\<close>\<close>

definition public_path :: "env \<Rightarrow> string \<Rightarrow> string \<Rightarrow> string" where
  "public_path env d f = replace_str (path_join env d f) backslash ''/''"

subsection \<open>Assets: \<open>compile_css\<close> and \<open>compile_js\<close>\<close>

definition compile_css :: "env \<Rightarrow> world \<Rightarrow> compiler \<Rightarrow> string \<Rightarrow> error + bool \<times> world \<times> compiler" where
  "compile_css env w st css_filename =
     (if css_filename \<in> built_dict st then Inr (False, w, st)
      else
        (case read_file w (path_join env (path_join env (dir_templates env) (dir_css env)) css_filename) of
           Inl e \<Rightarrow> Inl e
         | Inr (text, w1) \<Rightarrow>
             (let css_content = concat (readlines text);
                  css_content = (if minimize_css env \<and> find_str css_filename ''.min.'' = None
                                 then css_compress env css_content else css_content);
                  output_filename = path_join env (path_join env (dir_builds env) (dir_css env)) css_filename
              in case write_file w1 output_filename css_content of
                   Inl e \<Rightarrow> Inl e
                 | Inr w2 \<Rightarrow> Inr (True, w2, st\<lparr>built_dict := insert css_filename (built_dict st)\<rparr>))))"

definition compile_js :: "env \<Rightarrow> world \<Rightarrow> compiler \<Rightarrow> string \<Rightarrow> error + bool \<times> world \<times> compiler" where
  "compile_js env w st js_filename =
     (if js_filename \<in> built_dict st then Inr (False, w, st)
      else
        (case read_file w (path_join env (path_join env (dir_templates env) (dir_js env)) js_filename) of
           Inl e \<Rightarrow> Inl e
         | Inr (text, w1) \<Rightarrow>
             (let js_content = concat (readlines text);
                  js_content = (if minimize_js env \<and> find_str js_filename ''.min.'' = None
                                then jsmin env js_content else js_content);
                  output_filename = path_join env (path_join env (dir_builds env) (dir_js env)) js_filename
              in case write_file w1 output_filename js_content of
                   Inl e \<Rightarrow> Inl e
                 | Inr w2 \<Rightarrow> Inr (True, w2, st\<lparr>built_dict := insert js_filename (built_dict st)\<rparr>))))"

subsection \<open>Embeds: \<open>compile_publication\<close> and \<open>compile_art\<close>\<close>

text \<open>
  The condition list is \<open>lines[0][5:-5].split(',')\<close>; the loop that strips each
  condition assigns to its own variable only and changes nothing. Neither function
  writes to \<open>built_html\<close>, so neither returns a compiler state.
\<close>

definition conditions_of :: "string \<Rightarrow> string list" where
  "conditions_of first_line = split_on CHR '','' (drop 5 (take (length first_line - 5) first_line))"

definition compile_publication :: "env \<Rightarrow> world \<Rightarrow> compiler \<Rightarrow> string \<Rightarrow> error + string \<times> world" where
  "compile_publication env w st pub_filename =
     (case built_html st pub_filename of
        Some html \<Rightarrow> Inr (html, w)
      | None \<Rightarrow>
          (case read_file w pub_filename of
             Inl e \<Rightarrow> Inl e
           | Inr (text, w1) \<Rightarrow>
               (case readlines text of
                  [] \<Rightarrow> Inl IndexError
                | l # ls \<Rightarrow> Inr (papers_fill_templates env (conditions_of l) ls, w1))))"

definition compile_art :: "env \<Rightarrow> world \<Rightarrow> compiler \<Rightarrow> string \<Rightarrow> error + string \<times> world" where
  "compile_art env w st art_filename =
     (case built_html st art_filename of
        Some html \<Rightarrow> Inr (html, w)
      | None \<Rightarrow>
          (case read_file w art_filename of
             Inl e \<Rightarrow> Inl e
           | Inr (text, w1) \<Rightarrow>
               (case readlines text of
                  [] \<Rightarrow> Inl IndexError
                | l # ls \<Rightarrow> Inr (arts_fill_templates env (conditions_of l) ls, w1))))"

subsection \<open>\<open>parse_markdown\<close>\<close>

definition parse_markdown :: "env \<Rightarrow> string \<Rightarrow> string" where
  "parse_markdown env text =
     (let text = replace_str (strip_char (CHR 0x22) text) (backslash @ backslash) ''<br />'';
          text = markdown env text
      in if length text > 7 \<and> take 3 text = ''<p>'' \<and> drop (length text - 4) text = ''</p>''
         then take (length text - 7) (drop 3 text)
         else text)"

subsection \<open>\<open>parse_variable\<close>\<close>

text \<open>Lines 246 and 247: an alias of \<open>_assign_dict\<close> is replaced by its target.\<close>

definition redirect :: "compiler \<Rightarrow> string \<Rightarrow> string" where
  "redirect st variable = (case assign_dict st variable of Some target \<Rightarrow> target | None \<Rightarrow> variable)"

text \<open>
  Lines 250 to 258: the catalog and the name to look up. The first test compares the
  last three characters with \<open>_cn\<close>; the second is \<open>variable.find('_en') != -1\<close>.
\<close>

definition force_language :: "env \<Rightarrow> string \<Rightarrow> (string \<rightharpoonup> string) \<times> string" where
  "force_language env variable =
     (if drop (length variable - 3) variable = ''_cn''
      then (lang_cn env, take (length variable - 3) variable)
      else if find_str variable ''_en'' \<noteq> None
      then (lang_en env, take (length variable - 3) variable)
      else (lang_current env, variable))"

text \<open>
  The selection in the words of the spec, to compare \<open>force_language\<close> with: a name that
  ends with a language suffix is looked up, without the suffix, in the catalog of that
  language; every other name is looked up as it is in the current catalog.
\<close>

definition spec_language :: "env \<Rightarrow> string \<Rightarrow> (string \<rightharpoonup> string) \<times> string" where
  "spec_language env variable =
     (if drop (length variable - 3) variable = ''_cn''
      then (lang_cn env, take (length variable - 3) variable)
      else if drop (length variable - 3) variable = ''_en''
      then (lang_en env, take (length variable - 3) variable)
      else (lang_current env, variable))"

text \<open>
  One pass of the \<open>while\<close> loop for a match with groups \<open>g0\<close> and \<open>g1\<close>: \<open>Break\<close> is
  the \<open>break\<close> of line 266, \<open>Continue\<close> carries the line after \<open>line.replace\<close>.
\<close>

datatype step = Break world | Continue string world

definition parse_variable_body :: "env \<Rightarrow> compiler \<Rightarrow> world \<Rightarrow> string \<Rightarrow> string \<Rightarrow> string \<Rightarrow> step" where
  "parse_variable_body env st w line g0 g1 =
     (let (language, variable) = force_language env (redirect st g1)
      in case language variable of
           None \<Rightarrow>
             (let w1 = log_event w (LogWarning (''Cannot find variable '' @ variable @ '' in current lang.''))
              in case lang_en env variable of
                   None \<Rightarrow> Break (log_event w1 (LogError (''Cannot find English variable '' @ variable @ ''.'')))
                 | Some v \<Rightarrow> Continue (replace_str line g0 (parse_markdown env v)) w1)
         | Some v \<Rightarrow> Continue (replace_str line g0 (parse_markdown env v)) w)"

text \<open>The loop may run forever: \<open>None\<close> is the call that never returns.\<close>

partial_function (option) parse_variable :: "env \<Rightarrow> compiler \<Rightarrow> world \<Rightarrow> string \<Rightarrow> (string \<times> world) option" where
  "parse_variable env st w line =
     (case VARIABLE env line of
        None \<Rightarrow> Some (line, w)
      | Some (g0, g1) \<Rightarrow>
          (case parse_variable_body env st w line g0 g1 of
             Break w1 \<Rightarrow> Some (line, w1)
           | Continue line1 w1 \<Rightarrow> parse_variable env st w1 line1))"

subsection \<open>\<open>compile\<close>\<close>

text \<open>
  Lines 186 to 208, for a line that is none of the four directives before: the image,
  publication and art embeds, each searched in the line as the step before left it,
  then \<open>parse_variable\<close>. \<open>None\<close> is a \<open>parse_variable\<close> that never returns.
\<close>

definition compile_image :: "env \<Rightarrow> compiler \<Rightarrow> world \<Rightarrow> string \<Rightarrow> (string \<times> world) option" where
  "compile_image env st w line =
     (case IMAGE env line of
        None \<Rightarrow> Some (line, w)
      | Some (g1, g2) \<Rightarrow>
          (case parse_variable env st w g2 of
             None \<Rightarrow> None
           | Some (image_description, w1) \<Rightarrow>
               Some (markdown env (get_image env (''/'' @ public_path env (dir_images env) g1) image_description), w1)))"

definition compile_embeds :: "env \<Rightarrow> compiler \<Rightarrow> world \<Rightarrow> string \<Rightarrow> (error + string \<times> world) option" where
  "compile_embeds env st w line =
     (case compile_image env st w line of
        None \<Rightarrow> None
      | Some (line1, w1) \<Rightarrow>
          (case (case PUBLICATION env line1 of
                   None \<Rightarrow> Inr (line1, w1)
                 | Some g \<Rightarrow> compile_publication env w1 st (path_join env (dir_templates env) g)) of
             Inl e \<Rightarrow> Some (Inl e)
           | Inr (line2, w2) \<Rightarrow>
               (case (case ART env line2 of
                        None \<Rightarrow> Inr (line2, w2)
                      | Some g \<Rightarrow> compile_art env w2 st (path_join env (dir_templates env) g)) of
                  Inl e \<Rightarrow> Some (Inl e)
                | Inr (line3, w3) \<Rightarrow> map_option Inr (parse_variable env st w3 line3))))"

text \<open>Lines 214 to 222: the minified page is what is written, cached and returned.\<close>

definition write_html :: "env \<Rightarrow> world \<Rightarrow> string \<Rightarrow> string \<Rightarrow> error + string \<times> world" where
  "write_html env w output_filename html =
     (let w1 = (if minimize_html env \<and> debug_html env then log_event w (Stdout html) else w);
          html1 = (if minimize_html env then html_minify env html else html)
      in case write_file w1 output_filename html1 of
           Inl e \<Rightarrow> Inl e
         | Inr w2 \<Rightarrow> Inr (html1, w2))"

definition link_tag :: "string \<Rightarrow> string" where
  \<open>link_tag css_filename = ''<link rel="stylesheet" href="/'' @ css_filename @ ''" />''\<close>

definition script_tag :: "string \<Rightarrow> string" where
  \<open>script_tag js_filename = ''<script src="/'' @ js_filename @ ''"></script>''\<close>

text \<open>
  An include recurses with no cycle check, so \<open>compile\<close> takes fuel: the number of
  nested \<open>compile\<close> calls it may make. \<open>None\<close> is fuel used up, or a \<open>parse_variable\<close>
  that never returns. \<open>compile_lines\<close> is the loop over the lines, with \<open>html\<close> the text
  so far.
\<close>

fun compile :: "nat \<Rightarrow> env \<Rightarrow> world \<Rightarrow> compiler \<Rightarrow> string \<Rightarrow> bool \<Rightarrow> (error + string \<times> world \<times> compiler) option"
  and compile_lines :: "nat \<Rightarrow> env \<Rightarrow> world \<Rightarrow> compiler \<Rightarrow> string list \<Rightarrow> string \<Rightarrow> (error + string \<times> world \<times> compiler) option"
where
  "compile 0 env w st filename write_to_file = None"
| "compile (Suc n) env w st filename write_to_file =
     (case built_html st filename of
        Some html \<Rightarrow> Some (Inr (html, log_event w (LogInfo (''Reusing HTML: '' @ filename)), st))
      | None \<Rightarrow>
          (case read_file w (path_join env (dir_templates env) filename) of
             Inl e \<Rightarrow> Some (Inl e)
           | Inr (text, w1) \<Rightarrow>
               (case compile_lines n env w1 st (readlines text) [] of
                  None \<Rightarrow> None
                | Some (Inl e) \<Rightarrow> Some (Inl e)
                | Some (Inr (html, w2, st2)) \<Rightarrow>
                    (case (if write_to_file
                           then write_html env w2 (path_join env (dir_builds env) filename) html
                           else Inr (html, w2)) of
                       Inl e \<Rightarrow> Some (Inl e)
                     | Inr (html1, w3) \<Rightarrow>
                         Some (Inr (html1, w3, st2\<lparr>built_html := (built_html st2)(filename \<mapsto> html1)\<rparr>))))))"
| "compile_lines n env w st [] html = Some (Inr (html, w, st))"
| "compile_lines n env w st (line # lines) html =
     (if find_str line ''<!--'' = None \<and> find_str line ''{{'' = None
      then compile_lines n env w st lines (html @ line)
      else
        (case ASSIGN env line of
           Some (lhs, rhs) \<Rightarrow>
             compile_lines n env w (st\<lparr>assign_dict := (assign_dict st)(lhs \<mapsto> rhs)\<rparr>) lines html
         | None \<Rightarrow>
        (case INCLUDE env line of
           Some include_filename \<Rightarrow>
             (case compile n env (log_event w (LogInfo (''Including HTML: '' @ include_filename)))
                     st include_filename False of
                None \<Rightarrow> None
              | Some (Inl e) \<Rightarrow> Some (Inl e)
              | Some (Inr (include_content, w1, st1)) \<Rightarrow>
                  compile_lines n env w1 st1 lines (html @ include_content))
         | None \<Rightarrow>
        (case CSS env line of
           Some css_filename \<Rightarrow>
             (case compile_css env (log_event w (LogInfo (''Minimizing CSS: '' @ css_filename)))
                     st css_filename of
                Inl e \<Rightarrow> Some (Inl e)
              | Inr (new, w1, st1) \<Rightarrow>
                  compile_lines n env w1 st1 lines
                    (html @ link_tag (public_path env (dir_css env) css_filename)))
         | None \<Rightarrow>
        (case JS env line of
           Some js_filename \<Rightarrow>
             (case compile_js env (log_event w (LogInfo (''~ Minimizing JS: '' @ js_filename)))
                     st js_filename of
                Inl e \<Rightarrow> Some (Inl e)
              | Inr (new, w1, st1) \<Rightarrow>
                  compile_lines n env w1 st1 lines
                    (html @ script_tag (public_path env (dir_js env) js_filename)))
         | None \<Rightarrow>
             (case compile_embeds env st w line of
                None \<Rightarrow> None
              | Some (Inl e) \<Rightarrow> Some (Inl e)
              | Some (Inr (line1, w1)) \<Rightarrow> compile_lines n env w1 st lines (html @ line1)))))))"

subsection \<open>A concrete site\<close>

text \<open>
  Modelled from the spec: the patterns of \<open>scripts/utils/regex.py\<close>, which is not among
  the sources. The spec gives the directive syntax: assignment \<open><!-- alias = target -->\<close>,
  include \<open><!-- include: path -->\<close>, stylesheet \<open><!-- css: path -->\<close>, script
  \<open><!-- js: path -->\<close>, image \<open><!-- image: path | description -->\<close> and the variable
  reference \<open>{{name}}\<close>; the publication and art embeds are taken to be
  \<open><!-- publication: path -->\<close> and \<open><!-- art: path -->\<close>. A name is a run of letters,
  digits and underscores, a path a run of characters other than the space, and a
  search returns the leftmost match. The general theorems below do not depend on these
  definitions; they give the examples a site to run on.
\<close>

definition word_char :: "char \<Rightarrow> bool" where
  "word_char c = (c \<in> set ''abcdefghijklmnopqrstuvwxyzABCDEFGHIJKLMNOPQRSTUVWXYZ0123456789_'')"

fun search_first :: "(string \<Rightarrow> 'a option) \<Rightarrow> string \<Rightarrow> 'a option" where
  "search_first m [] = m []"
| "search_first m (c # cs) = (case m (c # cs) of Some r \<Rightarrow> Some r | None \<Rightarrow> search_first m cs)"

definition variable_at :: "string \<Rightarrow> (string \<times> string) option" where
  "variable_at s =
     (if prefix ''{{'' s
      then (let name = takeWhile word_char (drop 2 s)
            in if name \<noteq> [] \<and> prefix ''}}'' (dropWhile word_char (drop 2 s))
               then Some (''{{'' @ name @ ''}}'', name) else None)
      else None)"

definition directive_at :: "string \<Rightarrow> string \<Rightarrow> string option" where
  "directive_at key s =
     (let opening = ''<!-- '' @ key @ '': ''
      in if prefix opening s
         then (let path = takeWhile (\<lambda>c. c \<noteq> CHR '' '') (drop (length opening) s)
               in if path \<noteq> [] \<and> prefix '' -->'' (dropWhile (\<lambda>c. c \<noteq> CHR '' '') (drop (length opening) s))
                  then Some path else None)
         else None)"

definition assign_at :: "string \<Rightarrow> (string \<times> string) option" where
  "assign_at s =
     (if prefix ''<!-- '' s
      then (let lhs = takeWhile word_char (drop 5 s);
                rest = dropWhile word_char (drop 5 s)
            in if lhs \<noteq> [] \<and> prefix '' = '' rest
               then (let rhs = takeWhile word_char (drop 3 rest)
                     in if rhs \<noteq> [] \<and> prefix '' -->'' (dropWhile word_char (drop 3 rest))
                        then Some (lhs, rhs) else None)
               else None)
      else None)"

definition image_at :: "string \<Rightarrow> (string \<times> string) option" where
  "image_at s =
     (if prefix ''<!-- image: '' s
      then (let path = takeWhile (\<lambda>c. c \<noteq> CHR '' '') (drop 12 s);
                rest = dropWhile (\<lambda>c. c \<noteq> CHR '' '') (drop 12 s)
            in if path \<noteq> [] \<and> prefix '' | '' rest
               then (case find_str (drop 3 rest) '' -->'' of
                       None \<Rightarrow> None
                     | Some i \<Rightarrow> Some (path, take i (drop 3 rest)))
               else None)
      else None)"

text \<open>POSIX \<open>os.path.join\<close> of two components.\<close>

definition posix_join :: "string \<Rightarrow> string \<Rightarrow> string" where
  "posix_join a b =
     (if prefix ''/'' b then b
      else if a = [] \<or> last a = CHR ''/'' then a @ b
      else a @ ''/'' @ b)"

text \<open>
  A stand-in for the Markdown service on text without markup: the blocks that blank
  lines separate become one paragraph each, joined by a line feed.
\<close>

fun blocks :: "string \<Rightarrow> string list" where
  "blocks [] = [[]]"
| "blocks (c # cs) =
     (if c = CHR 0x0A \<and> prefix [CHR 0x0A] cs then [] # blocks (drop 1 cs)
      else (case blocks cs of [] \<Rightarrow> [[c]] | l # ls \<Rightarrow> (c # l) # ls))"

fun join_lines :: "string list \<Rightarrow> string" where
  "join_lines [] = []"
| "join_lines [l] = l"
| "join_lines (l # ls) = l @ [CHR 0x0A] @ join_lines ls"

definition plain_markdown :: "string \<Rightarrow> string" where
  "plain_markdown text =
     join_lines (map (\<lambda>b. ''<p>'' @ b @ ''</p>'') (filter (\<lambda>b. b \<noteq> []) (blocks text)))"

definition site :: env where
  "site = \<lparr>
     ASSIGN = search_first assign_at,
     INCLUDE = search_first (directive_at ''include''),
     CSS = search_first (directive_at ''css''),
     JS = search_first (directive_at ''js''),
     IMAGE = search_first image_at,
     PUBLICATION = search_first (directive_at ''publication''),
     ART = search_first (directive_at ''art''),
     VARIABLE = search_first variable_at,
     markdown = plain_markdown,
     css_compress = filter (\<lambda>c. c \<noteq> CHR '' ''),
     jsmin = filter (\<lambda>c. c \<noteq> CHR '' ''),
     html_minify = filter (\<lambda>c. c \<noteq> CHR 0x0A),
     papers_fill_templates = (\<lambda>conditions ls. concat ls),
     arts_fill_templates = (\<lambda>conditions ls. concat conditions @ '':'' @ concat ls),
     get_image = (\<lambda>path description. ''<img src='' @ path @ '' alt='' @ description @ ''>''),
     path_join = posix_join,
     dir_templates = ''t'',
     dir_builds = ''b'',
     dir_css = ''css'',
     dir_js = ''js'',
     dir_images = ''img'',
     minimize_css = True,
     minimize_js = True,
     minimize_html = False,
     debug_html = False,
     lang_en = [''title'' \<mapsto> ''Hello'', ''motto'' \<mapsto> ''Lab''],
     lang_cn = [''title'' \<mapsto> ''Nihao''],
     lang_current = [''title'' \<mapsto> ''Nihao'']
   \<rparr>"

definition new_compiler :: compiler where
  "new_compiler = \<lparr>assign_dict = Map.empty, built_dict = {}, built_html = Map.empty\<rparr>"

definition disk :: "(string \<rightharpoonup> string) \<Rightarrow> world" where
  "disk fs = \<lparr>files = fs, unwritable = {}, events = []\<rparr>"

text \<open>
  The same site with a catalog of two values that hold braces and no reference.
\<close>

definition cyc :: env where
  "cyc = site\<lparr>lang_en := [''a'' \<mapsto> ''{{{{b'', ''b'' \<mapsto> ''a}}}}''],
              lang_cn := Map.empty,
              lang_current := [''a'' \<mapsto> ''{{{{b'', ''b'' \<mapsto> ''a}}}}'']\<rparr>"

section \<open>Properties\<close>

subsection \<open>The asset set and the render cache only grow\<close>

lemma compile_css_cached:
  "f \<in> built_dict st \<Longrightarrow> compile_css env w st f = Inr (False, w, st)"
  by (simp add: compile_css_def)

lemma compile_js_cached:
  "f \<in> built_dict st \<Longrightarrow> compile_js env w st f = Inr (False, w, st)"
  by (simp add: compile_js_def)

lemma compile_css_state:
  "compile_css env w st f = Inr (b, w1, st1) \<Longrightarrow>
     built_dict st1 = insert f (built_dict st) \<and> built_html st1 = built_html st
     \<and> assign_dict st1 = assign_dict st"
  by (auto simp: compile_css_def Let_def split: if_splits sum.splits prod.splits)

lemma compile_js_state:
  "compile_js env w st f = Inr (b, w1, st1) \<Longrightarrow>
     built_dict st1 = insert f (built_dict st) \<and> built_html st1 = built_html st
     \<and> assign_dict st1 = assign_dict st"
  by (auto simp: compile_js_def Let_def split: if_splits sum.splits prod.splits)

lemma compile_grows:
  "compile n env w st filename write_to_file = Some (Inr (h, w1, st1)) \<Longrightarrow>
     built_dict st \<subseteq> built_dict st1 \<and> built_html st \<subseteq>\<^sub>m built_html st1"
  "compile_lines n env w st ls html = Some (Inr (h, w1, st1)) \<Longrightarrow>
     built_dict st \<subseteq> built_dict st1 \<and> built_html st \<subseteq>\<^sub>m built_html st1"
proof (induction n env w st filename write_to_file and n env w st ls html
    arbitrary: h w1 st1 and h w1 st1 rule: compile_compile_lines.induct)
  case (1 env w st filename write_to_file)
  then show ?case by simp
next
  case (2 n env w st filename write_to_file)
  show ?case
  proof (cases "built_html st filename")
    case (Some a)
    with "2.prems" show ?thesis by simp
  next
    case None
    with "2.prems" obtain content w0 html w2 st2 where
      rd: "read_file w (path_join env (dir_templates env) filename) = Inr (content, w0)"
      and cl: "compile_lines n env w0 st (readlines content) [] = Some (Inr (html, w2, st2))"
      and st1: "st1 = st2\<lparr>built_html := (built_html st2)(filename \<mapsto> h)\<rparr>"
      by (auto split: sum.splits option.splits prod.splits if_splits)
    from "2.IH"[OF None rd refl cl]
    have g: "built_dict st \<subseteq> built_dict st2" "built_html st \<subseteq>\<^sub>m built_html st2" by auto
    from g None st1 show ?thesis
      by (auto simp: map_le_def dom_def)
  qed
next
  case (3 n env w st html)
  then show ?case by simp
next
  case (4 n env w st line lines html)
  note prem = "4.prems"
  show ?case
  proof (cases "find_str line ''<!--'' = None \<and> find_str line ''{{'' = None")
    case True
    with prem have "compile_lines n env w st lines (html @ line) = Some (Inr (h, w1, st1))"
      by simp
    from "4.IH"(1)[OF True this] show ?thesis .
  next
    case nf: False
    show ?thesis
    proof (cases "ASSIGN env line")
      case (Some a)
      obtain lhs rhs where a: "a = (lhs, rhs)" by (cases a)
      from prem nf Some a
      have cl: "compile_lines n env w (st\<lparr>assign_dict := (assign_dict st)(lhs \<mapsto> rhs)\<rparr>) lines html
                  = Some (Inr (h, w1, st1))"
        by simp
      from "4.IH"(7)[OF nf Some a[symmetric] cl] show ?thesis by simp
    next
      case na: None
      show ?thesis
      proof (cases "INCLUDE env line")
        case (Some inc)
        from prem nf na Some obtain c w0 st0 where
          ci: "compile n env (log_event w (LogInfo (''Including HTML: '' @ inc))) st inc False
                 = Some (Inr (c, w0, st0))"
          and cl: "compile_lines n env w0 st0 lines (html @ c) = Some (Inr (h, w1, st1))"
          by (auto split: option.splits sum.splits prod.splits)
        from "4.IH"(5)[OF nf na Some ci] "4.IH"(6)[OF nf na Some ci refl refl refl cl]
        show ?thesis by (blast intro: map_le_trans)
      next
        case ni: None
        show ?thesis
        proof (cases "CSS env line")
          case (Some f)
          from prem nf na ni Some obtain b w0 st0 where
            cc: "compile_css env (log_event w (LogInfo (''Minimizing CSS: '' @ f))) st f
                   = Inr (b, w0, st0)"
            and cl: "compile_lines n env w0 st0 lines
                       (html @ link_tag (public_path env (dir_css env) f)) = Some (Inr (h, w1, st1))"
            by (auto split: sum.splits prod.splits)
          from compile_css_state[OF cc] "4.IH"(4)[OF nf na ni Some cc refl refl cl]
          show ?thesis by auto
        next
          case nc: None
          show ?thesis
          proof (cases "JS env line")
            case (Some f)
            from prem nf na ni nc Some obtain b w0 st0 where
              cj: "compile_js env (log_event w (LogInfo (''~ Minimizing JS: '' @ f))) st f
                     = Inr (b, w0, st0)"
              and cl: "compile_lines n env w0 st0 lines
                         (html @ script_tag (public_path env (dir_js env) f)) = Some (Inr (h, w1, st1))"
              by (auto split: sum.splits prod.splits)
            from compile_js_state[OF cj] "4.IH"(3)[OF nf na ni nc Some cj refl refl cl]
            show ?thesis by auto
          next
            case nj: None
            from prem nf na ni nc nj obtain l0 w0 where
              ce: "compile_embeds env st w line = Some (Inr (l0, w0))"
              and cl: "compile_lines n env w0 st lines (html @ l0) = Some (Inr (h, w1, st1))"
              by (auto split: option.splits sum.splits prod.splits)
            from "4.IH"(2)[OF nf na ni nc nj ce refl refl cl] show ?thesis .
          qed
        qed
      qed
    qed
  qed
qed

lemma compile_stores:
  "compile n env w st f wtf = Some (Inr (html, w1, st1)) \<Longrightarrow> built_html st1 f = Some html"
  by (cases n) (auto split: option.splits sum.splits prod.splits if_splits)

subsection \<open>The render cache\<close>

text \<open>
  C1. Once \<open>compile\<close> has returned \<open>html\<close> for a file \<open>f\<close>, that text is the entry of
  \<open>built_html\<close> for \<open>f\<close>, and a later \<open>compile\<close> of \<open>f\<close> returns the same text from any
  later state \<open>st2\<close> of the run (a state whose cache still holds the entries of \<open>st1\<close>;
  by \<open>compile_grows\<close>, \<open>compile_css_state\<close> and \<open>compile_js_state\<close> no operation
  removes or changes one). The later call is free in everything else: its assignment
  table, its files \<open>w2\<close>, its imports \<open>env2\<close> and its \<open>write_to_file\<close> flag. It leaves
  the state as it is and adds one record to the log: no file is read or written and
  no line is processed.
\<close>

theorem render_cache_hit:
  assumes first: "compile n env w st f wtf = Some (Inr (html, w1, st1))"
    and later: "built_html st1 \<subseteq>\<^sub>m built_html st2"
  shows "built_html st1 f = Some html \<and>
         compile (Suc m) env2 w2 st2 f wtf2 =
           Some (Inr (html, log_event w2 (LogInfo (''Reusing HTML: '' @ f)), st2))"
proof -
  from first have stored: "built_html st1 f = Some html" by (rule compile_stores)
  with later have "built_html st2 f = Some html"
    by (auto simp: map_le_def dom_def)
  with stored show ?thesis by simp
qed

text \<open>
  The theorem at work: \<open>a.html\<close> is rendered, then its source is replaced and an alias
  added, and the second call still returns the first text.
\<close>

theorem render_cache_hit_witness:
  "compile (Suc 0) site (disk [''t/a.html'' \<mapsto> ''bye'']) new_compiler ''a.html'' False =
     Some (Inr (''bye'', log_event (disk [''t/a.html'' \<mapsto> ''bye'']) (FileRead ''t/a.html''),
                new_compiler\<lparr>built_html := [''a.html'' \<mapsto> ''bye'']\<rparr>))
   \<and> compile (Suc 0) site (disk [''t/a.html'' \<mapsto> ''changed''])
         (new_compiler\<lparr>assign_dict := [''x'' \<mapsto> ''y''], built_html := [''a.html'' \<mapsto> ''bye'']\<rparr>)
         ''a.html'' True =
     Some (Inr (''bye'', log_event (disk [''t/a.html'' \<mapsto> ''changed'']) (LogInfo ''Reusing HTML: a.html''),
                new_compiler\<lparr>assign_dict := [''x'' \<mapsto> ''y''], built_html := [''a.html'' \<mapsto> ''bye'']\<rparr>))"
proof -
  have first: "compile (Suc 0) site (disk [''t/a.html'' \<mapsto> ''bye'']) new_compiler ''a.html'' False =
     Some (Inr (''bye'', log_event (disk [''t/a.html'' \<mapsto> ''bye'']) (FileRead ''t/a.html''),
                new_compiler\<lparr>built_html := [''a.html'' \<mapsto> ''bye'']\<rparr>))"
    by (simp add: site_def new_compiler_def disk_def read_file_def posix_join_def log_event_def)
  have later: "built_html (new_compiler\<lparr>built_html := [''a.html'' \<mapsto> ''bye'']\<rparr>) \<subseteq>\<^sub>m
       built_html (new_compiler\<lparr>assign_dict := [''x'' \<mapsto> ''y''], built_html := [''a.html'' \<mapsto> ''bye'']\<rparr>)"
    by simp
  from render_cache_hit[OF first later, of 0 site "disk [''t/a.html'' \<mapsto> ''changed'']" True] first
  show ?thesis by simp
qed

subsection \<open>Assets\<close>

text \<open>
  C9. \<open>compile_css\<close> and \<open>compile_js\<close> test and extend the same set \<open>built_dict\<close>.
  After \<open>compile_css\<close> has returned for a file name \<open>f\<close>, \<open>compile_js\<close> of \<open>f\<close> from any
  later state of the run (the set only grows) returns \<open>False\<close> and leaves the world and
  the state as they are: it reads nothing and writes no script file, although \<open>f\<close> was
  never processed as a script. The same holds with the two exchanged.
\<close>

theorem shared_asset_set:
  assumes "built_dict st1 \<subseteq> built_dict st2"
  shows "(compile_css env w st f = Inr (b, w1, st1) \<longrightarrow> compile_js env2 w2 st2 f = Inr (False, w2, st2))
       \<and> (compile_js env w st f = Inr (b, w1, st1) \<longrightarrow> compile_css env2 w2 st2 f = Inr (False, w2, st2))"
  using assms by (auto dest!: compile_css_state compile_js_state intro!: compile_css_cached compile_js_cached)

text \<open>
  The theorem at work: the stylesheet \<open>a\<close> is processed, and the script \<open>a\<close>, whose
  source exists, is then skipped.
\<close>

theorem shared_asset_set_witness:
  "compile_css site (disk [''t/css/a'' \<mapsto> ''x y'']) new_compiler ''a'' =
     Inr (True,
          \<lparr>files = [''t/css/a'' \<mapsto> ''x y'', ''b/css/a'' \<mapsto> ''xy''], unwritable = {},
           events = [FileRead ''t/css/a'', FileWrite ''b/css/a'' ''xy'']\<rparr>,
          new_compiler\<lparr>built_dict := {''a''}\<rparr>)
   \<and> compile_js site (disk [''t/js/a'' \<mapsto> ''u v'']) (new_compiler\<lparr>built_dict := {''a''}\<rparr>) ''a'' =
     Inr (False, disk [''t/js/a'' \<mapsto> ''u v''], new_compiler\<lparr>built_dict := {''a''}\<rparr>)"
proof -
  have css: "compile_css site (disk [''t/css/a'' \<mapsto> ''x y'']) new_compiler ''a'' =
     Inr (True,
          \<lparr>files = [''t/css/a'' \<mapsto> ''x y'', ''b/css/a'' \<mapsto> ''xy''], unwritable = {},
           events = [FileRead ''t/css/a'', FileWrite ''b/css/a'' ''xy'']\<rparr>,
          new_compiler\<lparr>built_dict := {''a''}\<rparr>)"
    by (simp add: compile_css_def site_def new_compiler_def disk_def read_file_def write_file_def
        posix_join_def log_event_def Let_def)
  from shared_asset_set[of "new_compiler\<lparr>built_dict := {''a''}\<rparr>" "new_compiler\<lparr>built_dict := {''a''}\<rparr>",
      THEN conjunct1, rule_format, OF _ css, of site "disk [''t/js/a'' \<mapsto> ''u v'']"] css
  show ?thesis by simp
qed

text \<open>
  C6. An asset is processed at most once in a run. Once \<open>compile_css\<close> or \<open>compile_js\<close>
  has returned for \<open>f\<close>, every later request for \<open>f\<close>, by either of them, returns \<open>False\<close>
  and leaves the world untouched: nothing is read, minified or written. \<open>built_dict\<close> only
  grows, through each asset call and through a whole \<open>compile\<close>. And a stylesheet or
  script line appends its reference tag, the \<open>link\<close> or \<open>script\<close> element of lines 173 and
  183 with the public path of the asset, whether its call returned \<open>True\<close> or \<open>False\<close>
  (\<open>new\<close> is free).
\<close>

theorem asset_processed_once:
  \<open>(built_dict st1 \<subseteq> built_dict st2 \<longrightarrow>
      compile_css env w st f = Inr (b, w1, st1) \<or> compile_js env w st f = Inr (b, w1, st1) \<longrightarrow>
      compile_css env2 w2 st2 f = Inr (False, w2, st2) \<and> compile_js env2 w2 st2 f = Inr (False, w2, st2))
   \<and> (compile_css env w st f = Inr (b, w1, st1) \<longrightarrow> built_dict st \<subseteq> built_dict st1)
   \<and> (compile_js env w st f = Inr (b, w1, st1) \<longrightarrow> built_dict st \<subseteq> built_dict st1)
   \<and> (compile n env w st filename write_to_file = Some (Inr (h, w1, st1)) \<longrightarrow>
        built_dict st \<subseteq> built_dict st1)
   \<and> (\<not> (find_str line ''<!--'' = None \<and> find_str line ''{{'' = None) \<longrightarrow>
        ASSIGN env line = None \<longrightarrow> INCLUDE env line = None \<longrightarrow> CSS env line = Some g \<longrightarrow>
        compile_css env (log_event w (LogInfo (''Minimizing CSS: '' @ g))) st g = Inr (new, w3, st3) \<longrightarrow>
        compile_lines n env w st (line # ls) html =
          compile_lines n env w3 st3 ls
            (html @ ''<link rel="stylesheet" href="/''
                  @ replace_str (path_join env (dir_css env) g) [CHR 0x5C] ''/'' @ ''" />''))
   \<and> (\<not> (find_str line ''<!--'' = None \<and> find_str line ''{{'' = None) \<longrightarrow>
        ASSIGN env line = None \<longrightarrow> INCLUDE env line = None \<longrightarrow> CSS env line = None \<longrightarrow>
        JS env line = Some g \<longrightarrow>
        compile_js env (log_event w (LogInfo (''~ Minimizing JS: '' @ g))) st g = Inr (new, w3, st3) \<longrightarrow>
        compile_lines n env w st (line # ls) html =
          compile_lines n env w3 st3 ls
            (html @ ''<script src="/''
                  @ replace_str (path_join env (dir_js env) g) [CHR 0x5C] ''/'' @ ''"></script>''))\<close>
proof -
  have a: "compile_css env w st f = Inr (b, w1, st1) \<Longrightarrow> built_dict st1 \<subseteq> built_dict st2 \<Longrightarrow>
           compile_css env2 w2 st2 f = Inr (False, w2, st2) \<and> compile_js env2 w2 st2 f = Inr (False, w2, st2)"
    by (auto dest!: compile_css_state intro!: compile_css_cached compile_js_cached)
  have b: "compile_js env w st f = Inr (b, w1, st1) \<Longrightarrow> built_dict st1 \<subseteq> built_dict st2 \<Longrightarrow>
           compile_css env2 w2 st2 f = Inr (False, w2, st2) \<and> compile_js env2 w2 st2 f = Inr (False, w2, st2)"
    by (auto dest!: compile_js_state intro!: compile_css_cached compile_js_cached)
  have c: "compile_css env w st f = Inr (b, w1, st1) \<Longrightarrow> built_dict st \<subseteq> built_dict st1"
    by (auto dest!: compile_css_state)
  have d: "compile_js env w st f = Inr (b, w1, st1) \<Longrightarrow> built_dict st \<subseteq> built_dict st1"
    by (auto dest!: compile_js_state)
  have e: "compile n env w st filename write_to_file = Some (Inr (h, w1, st1)) \<Longrightarrow>
           built_dict st \<subseteq> built_dict st1"
    by (simp add: compile_grows(1))
  from a b c d e show ?thesis
    by (auto simp: link_tag_def script_tag_def public_path_def backslash_def)
qed

text \<open>
  The theorem at work: a second request for \<open>a\<close> does nothing, and a page that names the
  stylesheet \<open>a\<close> twice and then the script \<open>a\<close> writes the stylesheet once, skips the
  script, and carries the three tags.
\<close>

theorem asset_processed_once_witness:
  \<open>compile_css site (disk [''t/css/a'' \<mapsto> ''x y'']) new_compiler ''a'' =
     Inr (True,
          \<lparr>files = [''t/css/a'' \<mapsto> ''x y'', ''b/css/a'' \<mapsto> ''xy''], unwritable = {},
           events = [FileRead ''t/css/a'', FileWrite ''b/css/a'' ''xy'']\<rparr>,
          new_compiler\<lparr>built_dict := {''a''}\<rparr>)
   \<and> compile_css site (disk [''t/css/a'' \<mapsto> ''changed'']) (new_compiler\<lparr>built_dict := {''a'', ''b''}\<rparr>) ''a'' =
     Inr (False, disk [''t/css/a'' \<mapsto> ''changed''], new_compiler\<lparr>built_dict := {''a'', ''b''}\<rparr>)
   \<and> compile_lines 0 site (disk Map.empty) (new_compiler\<lparr>built_dict := {''a''}\<rparr>)
         [''<!-- css: a -->'', ''<!-- js: a -->''] [] =
     Some (Inr (''<link rel="stylesheet" href="/css/a" /><script src="/js/a"></script>'',
          \<lparr>files = Map.empty, unwritable = {},
           events = [LogInfo ''Minimizing CSS: a'', LogInfo ''~ Minimizing JS: a'']\<rparr>,
          new_compiler\<lparr>built_dict := {''a''}\<rparr>))
   \<and> compile (Suc 0) site
         (disk [''t/p'' \<mapsto> ''<!-- css: a -->'' @ [CHR 0x0A] @ ''<!-- css: a -->'' @ [CHR 0x0A] @ ''<!-- js: a -->'',
                ''t/css/a'' \<mapsto> ''x y'', ''t/js/a'' \<mapsto> ''u v''])
         new_compiler ''p'' False =
     Some (Inr (''<link rel="stylesheet" href="/css/a" /><link rel="stylesheet" href="/css/a" /><script src="/js/a"></script>'',
          \<lparr>files = [''t/p'' \<mapsto> ''<!-- css: a -->'' @ [CHR 0x0A] @ ''<!-- css: a -->'' @ [CHR 0x0A] @ ''<!-- js: a -->'',
                    ''t/css/a'' \<mapsto> ''x y'', ''t/js/a'' \<mapsto> ''u v'', ''b/css/a'' \<mapsto> ''xy''],
           unwritable = {},
           events = [FileRead ''t/p'', LogInfo ''Minimizing CSS: a'', FileRead ''t/css/a'',
                     FileWrite ''b/css/a'' ''xy'', LogInfo ''Minimizing CSS: a'',
                     LogInfo ''~ Minimizing JS: a'']\<rparr>,
          new_compiler\<lparr>built_dict := {''a''},
                        built_html := [''p'' \<mapsto> ''<link rel="stylesheet" href="/css/a" /><link rel="stylesheet" href="/css/a" /><script src="/js/a"></script>'']\<rparr>))\<close>
proof -
  let ?st = "new_compiler\<lparr>built_dict := {''a''}\<rparr>"
  let ?w0 = "disk Map.empty"
  have css: "compile_css site (disk [''t/css/a'' \<mapsto> ''x y'']) new_compiler ''a'' =
     Inr (True,
          \<lparr>files = [''t/css/a'' \<mapsto> ''x y'', ''b/css/a'' \<mapsto> ''xy''], unwritable = {},
           events = [FileRead ''t/css/a'', FileWrite ''b/css/a'' ''xy'']\<rparr>,
          new_compiler\<lparr>built_dict := {''a''}\<rparr>)"
    by (simp add: compile_css_def site_def new_compiler_def disk_def read_file_def write_file_def
        posix_join_def log_event_def Let_def)
  have sub: "built_dict (new_compiler\<lparr>built_dict := {''a''}\<rparr>) \<subseteq>
             built_dict (new_compiler\<lparr>built_dict := {''a'', ''b''}\<rparr>)"
    by simp
  note again = asset_processed_once[THEN conjunct1, rule_format, OF sub disjI1[OF css], THEN conjunct1,
      of site "disk [''t/css/a'' \<mapsto> ''changed'']"]
  have m1: "\<not> (find_str ''<!-- css: a -->'' ''<!--'' = None \<and> find_str ''<!-- css: a -->'' ''{{'' = None)"
    and m2: "\<not> (find_str ''<!-- js: a -->'' ''<!--'' = None \<and> find_str ''<!-- js: a -->'' ''{{'' = None)"
    by simp_all
  have n1: "ASSIGN site ''<!-- css: a -->'' = None" "INCLUDE site ''<!-- css: a -->'' = None"
    and c1: "CSS site ''<!-- css: a -->'' = Some ''a''"
    and n2: "ASSIGN site ''<!-- js: a -->'' = None" "INCLUDE site ''<!-- js: a -->'' = None"
      "CSS site ''<!-- js: a -->'' = None"
    and j2: "JS site ''<!-- js: a -->'' = Some ''a''"
    by (simp_all add: site_def assign_at_def directive_at_def)
  have s1: "compile_css site (log_event ?w0 (LogInfo (''Minimizing CSS: '' @ ''a''))) ?st ''a'' =
              Inr (False, log_event ?w0 (LogInfo (''Minimizing CSS: '' @ ''a'')), ?st)"
    by (simp add: compile_css_def)
  have s2: "compile_js site
              (log_event (log_event ?w0 (LogInfo (''Minimizing CSS: '' @ ''a''))) (LogInfo (''~ Minimizing JS: '' @ ''a'')))
              ?st ''a'' =
            Inr (False,
              log_event (log_event ?w0 (LogInfo (''Minimizing CSS: '' @ ''a''))) (LogInfo (''~ Minimizing JS: '' @ ''a'')),
              ?st)"
    by (simp add: compile_js_def)
  note t1 = asset_processed_once[THEN conjunct2, THEN conjunct2, THEN conjunct2, THEN conjunct2,
      THEN conjunct1, rule_format, OF m1 n1 c1 s1, of 0 "[''<!-- js: a -->'']" "[]"]
  note t2 = asset_processed_once[THEN conjunct2, THEN conjunct2, THEN conjunct2, THEN conjunct2,
      THEN conjunct2, rule_format, OF m2 n2 j2 s2, of 0 "[]"]
  have tags: \<open>compile_lines 0 site ?w0 ?st [''<!-- css: a -->'', ''<!-- js: a -->''] [] =
     Some (Inr (''<link rel="stylesheet" href="/css/a" /><script src="/js/a"></script>'',
          \<lparr>files = Map.empty, unwritable = {},
           events = [LogInfo ''Minimizing CSS: a'', LogInfo ''~ Minimizing JS: a'']\<rparr>,
          ?st))\<close>
    apply (subst t1)
    apply (subst t2)
    apply (simp add: site_def posix_join_def disk_def log_event_def)
    done
  have run: \<open>compile (Suc 0) site
         (disk [''t/p'' \<mapsto> ''<!-- css: a -->'' @ [CHR 0x0A] @ ''<!-- css: a -->'' @ [CHR 0x0A] @ ''<!-- js: a -->'',
                ''t/css/a'' \<mapsto> ''x y'', ''t/js/a'' \<mapsto> ''u v''])
         new_compiler ''p'' False =
     Some (Inr (''<link rel="stylesheet" href="/css/a" /><link rel="stylesheet" href="/css/a" /><script src="/js/a"></script>'',
          \<lparr>files = [''t/p'' \<mapsto> ''<!-- css: a -->'' @ [CHR 0x0A] @ ''<!-- css: a -->'' @ [CHR 0x0A] @ ''<!-- js: a -->'',
                    ''t/css/a'' \<mapsto> ''x y'', ''t/js/a'' \<mapsto> ''u v'', ''b/css/a'' \<mapsto> ''xy''],
           unwritable = {},
           events = [FileRead ''t/p'', LogInfo ''Minimizing CSS: a'', FileRead ''t/css/a'',
                     FileWrite ''b/css/a'' ''xy'', LogInfo ''Minimizing CSS: a'',
                     LogInfo ''~ Minimizing JS: a'']\<rparr>,
          new_compiler\<lparr>built_dict := {''a''},
                        built_html := [''p'' \<mapsto> ''<link rel="stylesheet" href="/css/a" /><link rel="stylesheet" href="/css/a" /><script src="/js/a"></script>'']\<rparr>))\<close>
    by (simp add: compile_css_def compile_js_def site_def new_compiler_def disk_def read_file_def
        write_file_def posix_join_def log_event_def Let_def directive_at_def assign_at_def
        public_path_def backslash_def link_tag_def script_tag_def)
  from css again tags run show ?thesis by blast
qed

subsection \<open>The order of the directives\<close>

lemma compile_image_eq:
  "compile_image env st w line =
     (case IMAGE env line of
        None \<Rightarrow> Some (line, w)
      | Some (g1, g2) \<Rightarrow>
          (case parse_variable env st w g2 of
             None \<Rightarrow> None
           | Some (image_description, w1) \<Rightarrow>
               Some (markdown env
                       (get_image env
                          (''/'' @ replace_str (path_join env (dir_images env) g1) [CHR 0x5C] ''/'')
                          image_description), w1)))"
  unfolding compile_image_def public_path_def backslash_def by (rule refl)

lemma compile_embeds_steps:
  assumes "compile_image env st w line = Some (line1, w1)"
    and "(case PUBLICATION env line1 of
            None \<Rightarrow> Inr (line1, w1)
          | Some g \<Rightarrow> compile_publication env w1 st (path_join env (dir_templates env) g)) = Inr (line2, w2)"
    and "(case ART env line2 of
            None \<Rightarrow> Inr (line2, w2)
          | Some g \<Rightarrow> compile_art env w2 st (path_join env (dir_templates env) g)) = Inr (line3, w3)"
  shows "compile_embeds env st w line = map_option Inr (parse_variable env st w3 line3)"
  using assms by (simp add: compile_embeds_def)

text \<open>
  C2. On a line with a marker the patterns are tried in the order assignment, include,
  stylesheet, script, and the first that matches decides the line: each of the first
  four equations constrains only the patterns before its own, so the later patterns
  are free, and its right side has no \<open>compile_embeds\<close> and no \<open>parse_variable\<close>. When
  none of the four matches, the line goes through \<open>compile_embeds\<close>: the image pattern
  is searched in the line (a match gives the rendered image element, with the
  description resolved), the publication pattern in the line this leaves, the art
  pattern in the line that leaves, and \<open>parse_variable\<close> is run on the line the three
  steps leave, whether any of them matched or none.
\<close>

theorem directive_order:
  assumes marker: "\<not> (find_str line ''<!--'' = None \<and> find_str line ''{{'' = None)"
  shows \<open>(ASSIGN env line = Some (lhs, rhs) \<longrightarrow>
            compile_lines n env w st (line # ls) html =
              compile_lines n env w (st\<lparr>assign_dict := (assign_dict st)(lhs \<mapsto> rhs)\<rparr>) ls html)
       \<and> (ASSIGN env line = None \<longrightarrow> INCLUDE env line = Some g \<longrightarrow>
            compile_lines n env w st (line # ls) html =
              (case compile n env (log_event w (LogInfo (''Including HTML: '' @ g))) st g False of
                 None \<Rightarrow> None
               | Some (Inl e) \<Rightarrow> Some (Inl e)
               | Some (Inr (include_content, w1, st1)) \<Rightarrow>
                   compile_lines n env w1 st1 ls (html @ include_content)))
       \<and> (ASSIGN env line = None \<longrightarrow> INCLUDE env line = None \<longrightarrow> CSS env line = Some g \<longrightarrow>
            compile_lines n env w st (line # ls) html =
              (case compile_css env (log_event w (LogInfo (''Minimizing CSS: '' @ g))) st g of
                 Inl e \<Rightarrow> Some (Inl e)
               | Inr (new, w1, st1) \<Rightarrow>
                   compile_lines n env w1 st1 ls
                     (html @ ''<link rel="stylesheet" href="/''
                           @ replace_str (path_join env (dir_css env) g) [CHR 0x5C] ''/'' @ ''" />'')))
       \<and> (ASSIGN env line = None \<longrightarrow> INCLUDE env line = None \<longrightarrow> CSS env line = None \<longrightarrow>
          JS env line = Some g \<longrightarrow>
            compile_lines n env w st (line # ls) html =
              (case compile_js env (log_event w (LogInfo (''~ Minimizing JS: '' @ g))) st g of
                 Inl e \<Rightarrow> Some (Inl e)
               | Inr (new, w1, st1) \<Rightarrow>
                   compile_lines n env w1 st1 ls
                     (html @ ''<script src="/''
                           @ replace_str (path_join env (dir_js env) g) [CHR 0x5C] ''/'' @ ''"></script>'')))
       \<and> (ASSIGN env line = None \<longrightarrow> INCLUDE env line = None \<longrightarrow> CSS env line = None \<longrightarrow>
          JS env line = None \<longrightarrow>
            compile_lines n env w st (line # ls) html =
              (case compile_embeds env st w line of
                 None \<Rightarrow> None
               | Some (Inl e) \<Rightarrow> Some (Inl e)
               | Some (Inr (line1, w1)) \<Rightarrow> compile_lines n env w1 st ls (html @ line1)))
       \<and> compile_image env st w line =
            (case IMAGE env line of
               None \<Rightarrow> Some (line, w)
             | Some (g1, g2) \<Rightarrow>
                 (case parse_variable env st w g2 of
                    None \<Rightarrow> None
                  | Some (image_description, w1) \<Rightarrow>
                      Some (markdown env
                              (get_image env
                                 (''/'' @ replace_str (path_join env (dir_images env) g1) [CHR 0x5C] ''/'')
                                 image_description), w1)))
       \<and> (compile_image env st w line = None \<longrightarrow> compile_embeds env st w line = None)
       \<and> (\<forall>line1 w1 line2 w2 line3 w3.
            compile_image env st w line = Some (line1, w1) \<longrightarrow>
            (case PUBLICATION env line1 of
               None \<Rightarrow> Inr (line1, w1)
             | Some g \<Rightarrow> compile_publication env w1 st (path_join env (dir_templates env) g))
              = Inr (line2, w2) \<longrightarrow>
            (case ART env line2 of
               None \<Rightarrow> Inr (line2, w2)
             | Some g \<Rightarrow> compile_art env w2 st (path_join env (dir_templates env) g))
              = Inr (line3, w3) \<longrightarrow>
            compile_embeds env st w line = map_option Inr (parse_variable env st w3 line3))
       \<and> (\<forall>line1 w1 g e.
            compile_image env st w line = Some (line1, w1) \<longrightarrow> PUBLICATION env line1 = Some g \<longrightarrow>
            compile_publication env w1 st (path_join env (dir_templates env) g) = Inl e \<longrightarrow>
            compile_embeds env st w line = Some (Inl e))
       \<and> (\<forall>line1 w1 line2 w2 g e.
            compile_image env st w line = Some (line1, w1) \<longrightarrow>
            (case PUBLICATION env line1 of
               None \<Rightarrow> Inr (line1, w1)
             | Some g \<Rightarrow> compile_publication env w1 st (path_join env (dir_templates env) g))
              = Inr (line2, w2) \<longrightarrow>
            ART env line2 = Some g \<longrightarrow>
            compile_art env w2 st (path_join env (dir_templates env) g) = Inl e \<longrightarrow>
            compile_embeds env st w line = Some (Inl e))\<close>
proof -
  from marker have m: "(find_str line ''<!--'' = None \<and> find_str line ''{{'' = None) = False"
    by simp
  have four: \<open>(ASSIGN env line = Some (lhs, rhs) \<longrightarrow>
            compile_lines n env w st (line # ls) html =
              compile_lines n env w (st\<lparr>assign_dict := (assign_dict st)(lhs \<mapsto> rhs)\<rparr>) ls html)
       \<and> (ASSIGN env line = None \<longrightarrow> INCLUDE env line = Some g \<longrightarrow>
            compile_lines n env w st (line # ls) html =
              (case compile n env (log_event w (LogInfo (''Including HTML: '' @ g))) st g False of
                 None \<Rightarrow> None
               | Some (Inl e) \<Rightarrow> Some (Inl e)
               | Some (Inr (include_content, w1, st1)) \<Rightarrow>
                   compile_lines n env w1 st1 ls (html @ include_content)))
       \<and> (ASSIGN env line = None \<longrightarrow> INCLUDE env line = None \<longrightarrow> CSS env line = Some g \<longrightarrow>
            compile_lines n env w st (line # ls) html =
              (case compile_css env (log_event w (LogInfo (''Minimizing CSS: '' @ g))) st g of
                 Inl e \<Rightarrow> Some (Inl e)
               | Inr (new, w1, st1) \<Rightarrow>
                   compile_lines n env w1 st1 ls
                     (html @ link_tag (public_path env (dir_css env) g))))
       \<and> (ASSIGN env line = None \<longrightarrow> INCLUDE env line = None \<longrightarrow> CSS env line = None \<longrightarrow>
          JS env line = Some g \<longrightarrow>
            compile_lines n env w st (line # ls) html =
              (case compile_js env (log_event w (LogInfo (''~ Minimizing JS: '' @ g))) st g of
                 Inl e \<Rightarrow> Some (Inl e)
               | Inr (new, w1, st1) \<Rightarrow>
                   compile_lines n env w1 st1 ls
                     (html @ script_tag (public_path env (dir_js env) g))))
       \<and> (ASSIGN env line = None \<longrightarrow> INCLUDE env line = None \<longrightarrow> CSS env line = None \<longrightarrow>
          JS env line = None \<longrightarrow>
            compile_lines n env w st (line # ls) html =
              (case compile_embeds env st w line of
                 None \<Rightarrow> None
               | Some (Inl e) \<Rightarrow> Some (Inl e)
               | Some (Inr (line1, w1)) \<Rightarrow> compile_lines n env w1 st ls (html @ line1)))\<close>
    by (simp add: m)
  have none: "compile_image env st w line = None \<longrightarrow> compile_embeds env st w line = None"
    by (simp add: compile_embeds_def)
  have steps: "\<forall>line1 w1 line2 w2 line3 w3.
            compile_image env st w line = Some (line1, w1) \<longrightarrow>
            (case PUBLICATION env line1 of
               None \<Rightarrow> Inr (line1, w1)
             | Some g \<Rightarrow> compile_publication env w1 st (path_join env (dir_templates env) g))
              = Inr (line2, w2) \<longrightarrow>
            (case ART env line2 of
               None \<Rightarrow> Inr (line2, w2)
             | Some g \<Rightarrow> compile_art env w2 st (path_join env (dir_templates env) g))
              = Inr (line3, w3) \<longrightarrow>
            compile_embeds env st w line = map_option Inr (parse_variable env st w3 line3)"
    using compile_embeds_steps by blast
  have perr: "\<forall>line1 w1 g e.
            compile_image env st w line = Some (line1, w1) \<longrightarrow> PUBLICATION env line1 = Some g \<longrightarrow>
            compile_publication env w1 st (path_join env (dir_templates env) g) = Inl e \<longrightarrow>
            compile_embeds env st w line = Some (Inl e)"
    by (simp add: compile_embeds_def)
  have aerr: "\<forall>line1 w1 line2 w2 g e.
            compile_image env st w line = Some (line1, w1) \<longrightarrow>
            (case PUBLICATION env line1 of
               None \<Rightarrow> Inr (line1, w1)
             | Some g \<Rightarrow> compile_publication env w1 st (path_join env (dir_templates env) g))
              = Inr (line2, w2) \<longrightarrow>
            ART env line2 = Some g \<longrightarrow>
            compile_art env w2 st (path_join env (dir_templates env) g) = Inl e \<longrightarrow>
            compile_embeds env st w line = Some (Inl e)"
    by (simp add: compile_embeds_def)
  from four[unfolded link_tag_def script_tag_def public_path_def backslash_def]
    compile_image_eq[of env st w line] none steps perr aerr show ?thesis
    by (intro conjI) blast+
qed

theorem directive_order_witness:
  "CSS site ''<!-- a = b --><!-- css: x -->'' = Some ''x''
   \<and> compile_lines 0 site (disk Map.empty) new_compiler [''<!-- a = b --><!-- css: x -->''] [] =
       Some (Inr ([], disk Map.empty, new_compiler\<lparr>assign_dict := [''a'' \<mapsto> ''b'']\<rparr>))
   \<and> compile_lines 0 site (disk Map.empty) new_compiler [''<b>{{title}}</b>''] [] =
       Some (Inr (''<b>Nihao</b>'', disk Map.empty, new_compiler))
   \<and> compile_lines 0 site (disk Map.empty) new_compiler [''<!-- image: a.png | {{title}} -->''] [] =
       Some (Inr (''<p><img src=/img/a.png alt=Nihao></p>'', disk Map.empty, new_compiler))
   \<and> compile_lines 0 site (disk [''t/pub'' \<mapsto> ''<!-- all -->'' @ [CHR 0x0A] @ ''{{title}}''])
         new_compiler [''<!-- publication: pub -->''] [] =
       Some (Inr (''Nihao'',
         log_event (disk [''t/pub'' \<mapsto> ''<!-- all -->'' @ [CHR 0x0A] @ ''{{title}}'']) (FileRead ''t/pub''),
         new_compiler))
   \<and> compile_lines 0 site (disk [''t/art'' \<mapsto> ''<!-- x,y -->'' @ [CHR 0x0A] @ ''{{title}}''])
         new_compiler [''<!-- art: art -->''] [] =
       Some (Inr (''xy:Nihao'',
         log_event (disk [''t/art'' \<mapsto> ''<!-- x,y -->'' @ [CHR 0x0A] @ ''{{title}}'']) (FileRead ''t/art''),
         new_compiler))"
proof -
  note pv = parse_variable.simps site_def variable_at_def word_char_def parse_variable_body_def
    force_language_def redirect_def new_compiler_def parse_markdown_def strip_char_def
    backslash_def plain_markdown_def Let_def
  have m1: "\<not> (find_str ''<!-- a = b --><!-- css: x -->'' ''<!--'' = None
                \<and> find_str ''<!-- a = b --><!-- css: x -->'' ''{{'' = None)"
    by simp
  have a1: "ASSIGN site ''<!-- a = b --><!-- css: x -->'' = Some (''a'', ''b'')"
    by (simp add: site_def assign_at_def word_char_def)
  have c1: "CSS site ''<!-- a = b --><!-- css: x -->'' = Some ''x''"
    by (simp add: site_def directive_at_def)
  have "compile_lines 0 site (disk Map.empty) new_compiler [''<!-- a = b --><!-- css: x -->''] [] =
          compile_lines 0 site (disk Map.empty)
            (new_compiler\<lparr>assign_dict := (assign_dict new_compiler)(''a'' \<mapsto> ''b'')\<rparr>) [] []"
    by (rule directive_order[OF m1, THEN conjunct1, rule_format, OF a1])
  also have "\<dots> = Some (Inr ([], disk Map.empty, new_compiler\<lparr>assign_dict := [''a'' \<mapsto> ''b'']\<rparr>))"
    by (simp add: new_compiler_def)
  finally have first: "compile_lines 0 site (disk Map.empty) new_compiler [''<!-- a = b --><!-- css: x -->''] [] =
          Some (Inr ([], disk Map.empty, new_compiler\<lparr>assign_dict := [''a'' \<mapsto> ''b'']\<rparr>))" .
  let ?L2 = "''<b>{{title}}</b>''"
  let ?W = "disk Map.empty"
  have m2: "\<not> (find_str ?L2 ''<!--'' = None \<and> find_str ?L2 ''{{'' = None)"
    by simp
  have n2: "ASSIGN site ?L2 = None" "INCLUDE site ?L2 = None" "CSS site ?L2 = None" "JS site ?L2 = None"
    by (simp_all add: site_def assign_at_def directive_at_def)
  note d2 = directive_order[OF m2, where env=site and st=new_compiler and w="?W" and n=0
      and ls="[]" and html="[]"]
  note d2_lines = d2[THEN conjunct2, THEN conjunct2, THEN conjunct2, THEN conjunct2, THEN conjunct1,
      rule_format, OF n2]
  note d2_image = d2[THEN conjunct2, THEN conjunct2, THEN conjunct2, THEN conjunct2, THEN conjunct2,
      THEN conjunct1]
  note d2_steps = d2[THEN conjunct2, THEN conjunct2, THEN conjunct2, THEN conjunct2, THEN conjunct2,
      THEN conjunct2, THEN conjunct2, THEN conjunct1, rule_format]
  have i2: "compile_image site new_compiler ?W ?L2 = Some (?L2, ?W)"
    using d2_image by (simp add: site_def image_at_def)
  have p2: "(case PUBLICATION site ?L2 of None \<Rightarrow> Inr (?L2, ?W)
             | Some g \<Rightarrow> compile_publication site ?W new_compiler (path_join site (dir_templates site) g))
            = Inr (?L2, ?W)"
    by (simp add: site_def directive_at_def)
  have r2: "(case ART site ?L2 of None \<Rightarrow> Inr (?L2, ?W)
             | Some g \<Rightarrow> compile_art site ?W new_compiler (path_join site (dir_templates site) g))
            = Inr (?L2, ?W)"
    by (simp add: site_def directive_at_def)
  have v2: "parse_variable site new_compiler ?W ?L2 = Some (''<b>Nihao</b>'', ?W)"
    by (simp add: pv)
  have e2: "compile_embeds site new_compiler ?W ?L2 = Some (Inr (''<b>Nihao</b>'', ?W))"
    using d2_steps[OF i2 p2 r2] v2 by simp
  have second: "compile_lines 0 site ?W new_compiler [?L2] [] =
          Some (Inr (''<b>Nihao</b>'', ?W, new_compiler))"
    by (subst d2_lines) (simp add: e2)
  let ?L3 = "''<!-- image: a.png | {{title}} -->''"
  let ?R3 = "''<p><img src=/img/a.png alt=Nihao></p>''"
  have m3: "\<not> (find_str ?L3 ''<!--'' = None \<and> find_str ?L3 ''{{'' = None)"
    by simp
  have n3: "ASSIGN site ?L3 = None" "INCLUDE site ?L3 = None" "CSS site ?L3 = None" "JS site ?L3 = None"
    by (simp_all add: site_def assign_at_def directive_at_def)
  note d3 = directive_order[OF m3, where env=site and st=new_compiler and w="?W" and n=0
      and ls="[]" and html="[]"]
  note d3_lines = d3[THEN conjunct2, THEN conjunct2, THEN conjunct2, THEN conjunct2, THEN conjunct1,
      rule_format, OF n3]
  note d3_image = d3[THEN conjunct2, THEN conjunct2, THEN conjunct2, THEN conjunct2, THEN conjunct2,
      THEN conjunct1]
  note d3_steps = d3[THEN conjunct2, THEN conjunct2, THEN conjunct2, THEN conjunct2, THEN conjunct2,
      THEN conjunct2, THEN conjunct2, THEN conjunct1, rule_format]
  have g3: "IMAGE site ?L3 = Some (''a.png'', ''{{title}}'')"
    by (simp add: site_def image_at_def)
  have t3: "parse_variable site new_compiler ?W ''{{title}}'' = Some (''Nihao'', ?W)"
    by (simp add: pv)
  have i3: "compile_image site new_compiler ?W ?L3 = Some (?R3, ?W)"
    using d3_image by (simp add: g3 t3) (simp add: site_def posix_join_def plain_markdown_def)
  have p3: "(case PUBLICATION site ?R3 of None \<Rightarrow> Inr (?R3, ?W)
             | Some g \<Rightarrow> compile_publication site ?W new_compiler (path_join site (dir_templates site) g))
            = Inr (?R3, ?W)"
    by (simp add: site_def directive_at_def)
  have r3: "(case ART site ?R3 of None \<Rightarrow> Inr (?R3, ?W)
             | Some g \<Rightarrow> compile_art site ?W new_compiler (path_join site (dir_templates site) g))
            = Inr (?R3, ?W)"
    by (simp add: site_def directive_at_def)
  have v3: "parse_variable site new_compiler ?W ?R3 = Some (?R3, ?W)"
    by (simp add: pv)
  have e3: "compile_embeds site new_compiler ?W ?L3 = Some (Inr (?R3, ?W))"
    using d3_steps[OF i3 p3 r3] v3 by simp
  have third: "compile_lines 0 site ?W new_compiler [?L3] [] = Some (Inr (?R3, ?W, new_compiler))"
    by (subst d3_lines) (simp add: e3)
  let ?L4 = "''<!-- publication: pub -->''"
  let ?W4 = "disk [''t/pub'' \<mapsto> ''<!-- all -->'' @ [CHR 0x0A] @ ''{{title}}'']"
  have m4: "\<not> (find_str ?L4 ''<!--'' = None \<and> find_str ?L4 ''{{'' = None)"
    by simp
  have n4: "ASSIGN site ?L4 = None" "INCLUDE site ?L4 = None" "CSS site ?L4 = None" "JS site ?L4 = None"
    by (simp_all add: site_def assign_at_def directive_at_def)
  note d4 = directive_order[OF m4, where env=site and st=new_compiler and w="?W4" and n=0
      and ls="[]" and html="[]"]
  note d4_lines = d4[THEN conjunct2, THEN conjunct2, THEN conjunct2, THEN conjunct2, THEN conjunct1,
      rule_format, OF n4]
  note d4_image = d4[THEN conjunct2, THEN conjunct2, THEN conjunct2, THEN conjunct2, THEN conjunct2,
      THEN conjunct1]
  note d4_steps = d4[THEN conjunct2, THEN conjunct2, THEN conjunct2, THEN conjunct2, THEN conjunct2,
      THEN conjunct2, THEN conjunct2, THEN conjunct1, rule_format]
  have i4: "compile_image site new_compiler ?W4 ?L4 = Some (?L4, ?W4)"
    using d4_image by (simp add: site_def image_at_def)
  have p4: "(case PUBLICATION site ?L4 of None \<Rightarrow> Inr (?L4, ?W4)
             | Some g \<Rightarrow> compile_publication site ?W4 new_compiler (path_join site (dir_templates site) g))
            = Inr (''{{title}}'', log_event ?W4 (FileRead ''t/pub''))"
    by (simp add: site_def directive_at_def compile_publication_def new_compiler_def read_file_def
        disk_def posix_join_def conditions_of_def)
  have r4: "(case ART site ''{{title}}'' of None \<Rightarrow> Inr (''{{title}}'', log_event ?W4 (FileRead ''t/pub''))
             | Some g \<Rightarrow> compile_art site (log_event ?W4 (FileRead ''t/pub'')) new_compiler
                          (path_join site (dir_templates site) g))
            = Inr (''{{title}}'', log_event ?W4 (FileRead ''t/pub''))"
    by (simp add: site_def directive_at_def)
  have v4: "parse_variable site new_compiler (log_event ?W4 (FileRead ''t/pub'')) ''{{title}}'' =
              Some (''Nihao'', log_event ?W4 (FileRead ''t/pub''))"
    by (simp add: pv)
  have e4: "compile_embeds site new_compiler ?W4 ?L4 =
              Some (Inr (''Nihao'', log_event ?W4 (FileRead ''t/pub'')))"
    using d4_steps[OF i4 p4 r4] v4 by simp
  have fourth: "compile_lines 0 site ?W4 new_compiler [?L4] [] =
                  Some (Inr (''Nihao'', log_event ?W4 (FileRead ''t/pub''), new_compiler))"
    apply (subst d4_lines)
    using e4 apply simp
    done
  let ?L5 = "''<!-- art: art -->''"
  let ?W5 = "disk [''t/art'' \<mapsto> ''<!-- x,y -->'' @ [CHR 0x0A] @ ''{{title}}'']"
  have m5: "\<not> (find_str ?L5 ''<!--'' = None \<and> find_str ?L5 ''{{'' = None)"
    by simp
  have n5: "ASSIGN site ?L5 = None" "INCLUDE site ?L5 = None" "CSS site ?L5 = None" "JS site ?L5 = None"
    by (simp_all add: site_def assign_at_def directive_at_def)
  note d5 = directive_order[OF m5, where env=site and st=new_compiler and w="?W5" and n=0
      and ls="[]" and html="[]"]
  note d5_lines = d5[THEN conjunct2, THEN conjunct2, THEN conjunct2, THEN conjunct2, THEN conjunct1,
      rule_format, OF n5]
  note d5_image = d5[THEN conjunct2, THEN conjunct2, THEN conjunct2, THEN conjunct2, THEN conjunct2,
      THEN conjunct1]
  note d5_steps = d5[THEN conjunct2, THEN conjunct2, THEN conjunct2, THEN conjunct2, THEN conjunct2,
      THEN conjunct2, THEN conjunct2, THEN conjunct1, rule_format]
  have i5: "compile_image site new_compiler ?W5 ?L5 = Some (?L5, ?W5)"
    using d5_image by (simp add: site_def image_at_def)
  have p5: "(case PUBLICATION site ?L5 of None \<Rightarrow> Inr (?L5, ?W5)
             | Some g \<Rightarrow> compile_publication site ?W5 new_compiler (path_join site (dir_templates site) g))
            = Inr (?L5, ?W5)"
    by (simp add: site_def directive_at_def)
  have r5: "(case ART site ?L5 of None \<Rightarrow> Inr (?L5, ?W5)
             | Some g \<Rightarrow> compile_art site ?W5 new_compiler (path_join site (dir_templates site) g))
            = Inr (''xy:{{title}}'', log_event ?W5 (FileRead ''t/art''))"
    by (simp add: site_def directive_at_def compile_art_def new_compiler_def read_file_def
        disk_def posix_join_def conditions_of_def)
  have v5: "parse_variable site new_compiler (log_event ?W5 (FileRead ''t/art'')) ''xy:{{title}}'' =
              Some (''xy:Nihao'', log_event ?W5 (FileRead ''t/art''))"
    by (simp add: pv)
  have e5: "compile_embeds site new_compiler ?W5 ?L5 =
              Some (Inr (''xy:Nihao'', log_event ?W5 (FileRead ''t/art'')))"
    using d5_steps[OF i5 p5 r5] v5 by simp
  have fifth: "compile_lines 0 site ?W5 new_compiler [?L5] [] =
                 Some (Inr (''xy:Nihao'', log_event ?W5 (FileRead ''t/art''), new_compiler))"
    apply (subst d5_lines)
    using e5 apply simp
    done
  from c1 first second third fourth fifth show ?thesis by blast
qed

subsection \<open>Variable resolution\<close>

lemma compile_embeds_plain:
  "IMAGE env line = None \<Longrightarrow> PUBLICATION env line = None \<Longrightarrow> ART env line = None \<Longrightarrow>
   compile_embeds env st w line = map_option Inr (parse_variable env st w line)"
  by (simp add: compile_embeds_def compile_image_def)

lemma find_str_None_iff: "find_str s sub = None \<longleftrightarrow> \<not> sublist sub s"
  by (induction s) (auto simp: sublist_Cons_right)

lemma force_language_spec:
  assumes "find_str variable ''_en'' = None
           \<or> drop (length variable - 3) variable = ''_en''
           \<or> drop (length variable - 3) variable = ''_cn''"
  shows "force_language env variable = spec_language env variable"
proof (cases "drop (length variable - 3) variable = ''_en''")
  case True
  then have "variable = take (length variable - 3) variable @ ''_en''"
    by (metis append_take_drop_id)
  then have "sublist ''_en'' variable"
    by (metis sublist_appendI append_Nil2)
  then have "find_str variable ''_en'' \<noteq> None"
    by (simp add: find_str_None_iff)
  with True show ?thesis
    by (simp add: force_language_def spec_language_def)
next
  case False
  with assms show ?thesis
    by (auto simp: force_language_def spec_language_def)
qed


text \<open>
  Where the test of the code and the words of the spec select the same catalog and
  name (the name holds no \<open>_en\<close>, or ends with a suffix), a name that is not in the
  selected catalog and is in the English one is replaced by the English text rendered
  by \<open>parse_markdown\<close>, one warning and no error is logged, and the loop goes on.
\<close>

lemma fallback_step:
  assumes "VARIABLE env line = Some (g0, g1)"
    and "find_str (redirect st g1) ''_en'' = None
         \<or> drop (length (redirect st g1) - 3) (redirect st g1) = ''_en''
         \<or> drop (length (redirect st g1) - 3) (redirect st g1) = ''_cn''"
    and "spec_language env (redirect st g1) = (language, variable)"
    and "language variable = None"
    and "lang_en env variable = Some v"
  shows "parse_variable_body env st w line g0 g1 =
           Continue (replace_str line g0 (parse_markdown env v))
             (log_event w (LogWarning (''Cannot find variable '' @ variable @ '' in current lang.'')))
       \<and> parse_variable env st w line =
           parse_variable env st
             (log_event w (LogWarning (''Cannot find variable '' @ variable @ '' in current lang.'')))
             (replace_str line g0 (parse_markdown env v))"
proof -
  from assms(2,3) have "force_language env (redirect st g1) = (language, variable)"
    by (simp add: force_language_spec)
  with assms have body: "parse_variable_body env st w line g0 g1 =
           Continue (replace_str line g0 (parse_markdown env v))
             (log_event w (LogWarning (''Cannot find variable '' @ variable @ '' in current lang.'')))"
    by (simp add: parse_variable_body_def Let_def)
  with assms(1) show ?thesis
    by (subst parse_variable.simps) simp
qed

text \<open>
  C5 fails on the code for a name that holds \<open>_en\<close> before its end, by the test of C3.
  With \<open>my_entry\<close> in the English catalog only, the reference \<open>{{my_entry}}\<close> is a name
  absent from the current catalog and present in the English one; the code looks
  \<open>my_en\<close> up instead, logs a warning and an error and leaves the reference unresolved,
  where the claim gives the English text and a warning only.
\<close>

theorem fallback_lost_by_suffix_test:
  "spec_language (site\<lparr>lang_en := [''my_entry'' \<mapsto> ''Mine''], lang_cn := Map.empty, lang_current := Map.empty\<rparr>)
       ''my_entry''
     = (Map.empty, ''my_entry'')
   \<and> parse_variable
       (site\<lparr>lang_en := [''my_entry'' \<mapsto> ''Mine''], lang_cn := Map.empty, lang_current := Map.empty\<rparr>)
       new_compiler (disk Map.empty) ''{{my_entry}}'' =
     Some (''{{my_entry}}'',
           \<lparr>files = Map.empty, unwritable = {},
            events = [LogWarning ''Cannot find variable my_en in current lang.'',
                      LogError ''Cannot find English variable my_en.'']\<rparr>)"
  by (simp add: parse_variable.simps site_def variable_at_def word_char_def parse_variable_body_def
      force_language_def spec_language_def redirect_def new_compiler_def Let_def disk_def log_event_def)

text \<open>
  C4, as stated, fails: the line is not truncated. With \<open>x\<close> in no catalog, the line
  \<open>A{{title}}B{{x}}C{{motto}}\<close> comes back as \<open>ANihaoB{{x}}C{{motto}}\<close>: the reference that
  failed and all the text after it are still there (also \<open>{{motto}}\<close>, which the English
  catalog has), where the claim gives the line cut after the last resolved reference.
\<close>

theorem missing_variable_not_truncated:
  "parse_variable site new_compiler (disk Map.empty) ''A{{title}}B{{x}}C{{motto}}'' =
     Some (''ANihaoB{{x}}C{{motto}}'',
           \<lparr>files = Map.empty, unwritable = {},
            events = [LogWarning ''Cannot find variable x in current lang.'',
                      LogError ''Cannot find English variable x.'']\<rparr>)
   \<and> ''ANihaoB{{x}}C{{motto}}'' \<noteq> ''ANihao''"
  by (simp add: parse_variable.simps site_def variable_at_def word_char_def parse_variable_body_def
      force_language_def redirect_def new_compiler_def parse_markdown_def strip_char_def
      backslash_def plain_markdown_def Let_def disk_def log_event_def)

text \<open>
  C4, amended. Take a reference whose name, after redirection, holds no \<open>_en\<close> or ends
  with a language suffix (the other names are those of C3, where the code selects
  another name than the spec; nothing is said of them here). When the name the spec
  selects for it is in neither the catalog the spec selects nor the English one,
  resolution stops at this reference: a warning and an error are logged and the line is
  returned as it stands, with the substitutions made so far and with this reference and
  everything after it unchanged. The loop over the lines then goes on with the next
  line.
\<close>

theorem missing_variable_stops:
  assumes "VARIABLE env line = Some (g0, g1)"
    and "find_str (redirect st g1) ''_en'' = None
         \<or> drop (length (redirect st g1) - 3) (redirect st g1) = ''_en''
         \<or> drop (length (redirect st g1) - 3) (redirect st g1) = ''_cn''"
    and "spec_language env (redirect st g1) = (language, variable)"
    and "language variable = None"
    and "lang_en env variable = None"
  shows "parse_variable env st w line =
           Some (line,
             log_event
               (log_event w (LogWarning (''Cannot find variable '' @ variable @ '' in current lang.'')))
               (LogError (''Cannot find English variable '' @ variable @ ''.'')))
       \<and> (\<not> (find_str line ''<!--'' = None \<and> find_str line ''{{'' = None) \<longrightarrow>
          ASSIGN env line = None \<longrightarrow> INCLUDE env line = None \<longrightarrow> CSS env line = None \<longrightarrow>
          JS env line = None \<longrightarrow> IMAGE env line = None \<longrightarrow> PUBLICATION env line = None \<longrightarrow>
          ART env line = None \<longrightarrow>
            compile_lines n env w st (line # ls) html =
              compile_lines n env
                (log_event
                  (log_event w (LogWarning (''Cannot find variable '' @ variable @ '' in current lang.'')))
                  (LogError (''Cannot find English variable '' @ variable @ ''.'')))
                st ls (html @ line))"
proof -
  from assms(2,3) have "force_language env (redirect st g1) = (language, variable)"
    by (simp add: force_language_spec)
  with assms have body: "parse_variable_body env st w line g0 g1 =
      Break (log_event
               (log_event w (LogWarning (''Cannot find variable '' @ variable @ '' in current lang.'')))
               (LogError (''Cannot find English variable '' @ variable @ ''.'')))"
    by (simp add: parse_variable_body_def Let_def)
  with assms(1) have pv: "parse_variable env st w line =
           Some (line,
             log_event
               (log_event w (LogWarning (''Cannot find variable '' @ variable @ '' in current lang.'')))
               (LogError (''Cannot find English variable '' @ variable @ ''.'')))"
    by (subst parse_variable.simps) simp
  then show ?thesis
    by (simp add: compile_embeds_plain)
qed

text \<open>
  The theorem at work: the line with the unknown \<open>x\<close> is appended whole, and the line
  after it is processed; and a reference with the suffix \<open>_cn\<close> whose name \<open>motto\<close> is in
  no catalog but the English one is resolved from it, so only a name in neither stops
  the line (\<open>nope_cn\<close>).
\<close>

theorem missing_variable_stops_witness:
  "compile_lines 0 site (disk Map.empty) new_compiler [''B{{x}}C{{motto}}'', ''D''] [] =
     Some (Inr (''B{{x}}C{{motto}}D'',
           log_event
             (log_event (disk Map.empty) (LogWarning ''Cannot find variable x in current lang.''))
             (LogError ''Cannot find English variable x.''),
           new_compiler))
   \<and> parse_variable site new_compiler (disk Map.empty) ''{{nope_cn}}!'' =
       Some (''{{nope_cn}}!'',
           log_event
             (log_event (disk Map.empty) (LogWarning ''Cannot find variable nope in current lang.''))
             (LogError ''Cannot find English variable nope.''))"
proof -
  have v: "VARIABLE site ''B{{x}}C{{motto}}'' = Some (''{{x}}'', ''x'')"
    by (simp add: site_def variable_at_def word_char_def)
  have k: "find_str (redirect new_compiler ''x'') ''_en'' = None
         \<or> drop (length (redirect new_compiler ''x'') - 3) (redirect new_compiler ''x'') = ''_en''
         \<or> drop (length (redirect new_compiler ''x'') - 3) (redirect new_compiler ''x'') = ''_cn''"
    by (simp add: redirect_def new_compiler_def)
  have f: "spec_language site (redirect new_compiler ''x'') = (lang_current site, ''x'')"
    by (simp add: spec_language_def redirect_def new_compiler_def)
  have c: "lang_current site ''x'' = None" and e: "lang_en site ''x'' = None"
    by (simp_all add: site_def)
  have m: "\<not> (find_str ''B{{x}}C{{motto}}'' ''<!--'' = None \<and> find_str ''B{{x}}C{{motto}}'' ''{{'' = None)"
    by simp
  have n: "ASSIGN site ''B{{x}}C{{motto}}'' = None" "INCLUDE site ''B{{x}}C{{motto}}'' = None"
    "CSS site ''B{{x}}C{{motto}}'' = None" "JS site ''B{{x}}C{{motto}}'' = None"
    "IMAGE site ''B{{x}}C{{motto}}'' = None" "PUBLICATION site ''B{{x}}C{{motto}}'' = None"
    "ART site ''B{{x}}C{{motto}}'' = None"
    by (simp_all add: site_def assign_at_def directive_at_def image_at_def)
  have "compile_lines 0 site (disk Map.empty) new_compiler [''B{{x}}C{{motto}}'', ''D''] [] =
          compile_lines 0 site
            (log_event
              (log_event (disk Map.empty) (LogWarning (''Cannot find variable '' @ ''x'' @ '' in current lang.'')))
              (LogError (''Cannot find English variable '' @ ''x'' @ ''.'')))
            new_compiler [''D''] ([] @ ''B{{x}}C{{motto}}'')"
    by (rule missing_variable_stops[OF v k f c e, THEN conjunct2, rule_format, OF m n])
  also have "\<dots> = Some (Inr (''B{{x}}C{{motto}}D'',
           log_event
             (log_event (disk Map.empty) (LogWarning ''Cannot find variable x in current lang.''))
             (LogError ''Cannot find English variable x.''),
           new_compiler))"
    by simp
  finally have lines: "compile_lines 0 site (disk Map.empty) new_compiler [''B{{x}}C{{motto}}'', ''D''] [] =
     Some (Inr (''B{{x}}C{{motto}}D'',
           log_event
             (log_event (disk Map.empty) (LogWarning ''Cannot find variable x in current lang.''))
             (LogError ''Cannot find English variable x.''),
           new_compiler))" .
  have v2: "VARIABLE site ''{{nope_cn}}!'' = Some (''{{nope_cn}}'', ''nope_cn'')"
    by (simp add: site_def variable_at_def word_char_def)
  have k2: "find_str (redirect new_compiler ''nope_cn'') ''_en'' = None
         \<or> drop (length (redirect new_compiler ''nope_cn'') - 3) (redirect new_compiler ''nope_cn'') = ''_en''
         \<or> drop (length (redirect new_compiler ''nope_cn'') - 3) (redirect new_compiler ''nope_cn'') = ''_cn''"
    by (simp add: redirect_def new_compiler_def)
  have f2: "spec_language site (redirect new_compiler ''nope_cn'') = (lang_cn site, ''nope'')"
    by (simp add: spec_language_def redirect_def new_compiler_def)
  have c2: "lang_cn site ''nope'' = None" and e2: "lang_en site ''nope'' = None"
    by (simp_all add: site_def)
  from missing_variable_stops[OF v2 k2 f2 c2 e2, THEN conjunct1, of "disk Map.empty"]
  have suffix: "parse_variable site new_compiler (disk Map.empty) ''{{nope_cn}}!'' =
       Some (''{{nope_cn}}!'',
           log_event
             (log_event (disk Map.empty) (LogWarning ''Cannot find variable nope in current lang.''))
             (LogError ''Cannot find English variable nope.''))"
    by simp
  from lines suffix show ?thesis by blast
qed

subsection \<open>The paragraph wrapper\<close>

lemma wrapped_shape:
  assumes "length r > 7" "take 3 r = ''<p>''" "drop (length r - 4) r = ''</p>''"
  shows "r = ''<p>'' @ take (length r - 7) (drop 3 r) @ ''</p>''"
proof -
  have "drop (length r - 7) (drop 3 r) = drop (length r - 4) r"
    using assms(1) by simp
  with assms(3) have "drop 3 r = take (length r - 7) (drop 3 r) @ ''</p>''"
    by (metis append_take_drop_id)
  with assms(2) show ?thesis
    by (metis append_take_drop_id)
qed

text \<open>
  C8, as stated, fails in its second half: a rendering of several paragraphs is not
  left untouched. It starts with \<open><p>\<close> and ends with \<open></p>\<close> too, so the text of two
  blocks \<open>a\<close> and \<open>b\<close>, rendered as \<open><p>a</p>\<close>, a line feed and \<open><p>b</p>\<close>, loses its
  first and its last marker.
\<close>

theorem multiple_paragraphs_stripped:
  "markdown site (''a'' @ [CHR 0x0A, CHR 0x0A] @ ''b'') = ''<p>a</p>'' @ [CHR 0x0A] @ ''<p>b</p>''
   \<and> parse_markdown site (''a'' @ [CHR 0x0A, CHR 0x0A] @ ''b'') = ''a</p>'' @ [CHR 0x0A] @ ''<p>b''"
  by (simp add: site_def parse_markdown_def strip_char_def backslash_def plain_markdown_def Let_def)

text \<open>
  C8, amended. \<open>parse_markdown\<close> renders the text (quotes stripped, a pair of
  backslashes turned into a line break) and removes the leading \<open><p>\<close> and the trailing
  \<open></p>\<close> of every rendering of the form \<open><p>body</p>\<close> with a body that is not empty
  (the renderings longer than 7 characters with these two ends), whatever the body
  holds: one paragraph loses its wrapper, several paragraphs lose the first opening and
  the last closing marker. A rendering not of this form is returned as it is.
\<close>

theorem paragraph_wrapper:
  "(markdown env (replace_str (strip_char (CHR 0x22) text) (backslash @ backslash) ''<br />'')
      = ''<p>'' @ body @ ''</p>'' \<longrightarrow> body \<noteq> [] \<longrightarrow>
    parse_markdown env text = body)
   \<and> ((\<nexists>inner. inner \<noteq> [] \<and>
          markdown env (replace_str (strip_char (CHR 0x22) text) (backslash @ backslash) ''<br />'')
            = ''<p>'' @ inner @ ''</p>'') \<longrightarrow>
    parse_markdown env text =
      markdown env (replace_str (strip_char (CHR 0x22) text) (backslash @ backslash) ''<br />''))"
proof (intro conjI impI)
  assume "markdown env (replace_str (strip_char (CHR 0x22) text) (backslash @ backslash) ''<br />'')
      = ''<p>'' @ body @ ''</p>''" and "body \<noteq> []"
  then show "parse_markdown env text = body"
    by (cases body) (simp_all add: parse_markdown_def Let_def)
next
  let ?r = "markdown env (replace_str (strip_char (CHR 0x22) text) (backslash @ backslash) ''<br />'')"
  assume no: "\<nexists>inner. inner \<noteq> [] \<and> ?r = ''<p>'' @ inner @ ''</p>''"
  have "\<not> (length ?r > 7 \<and> take 3 ?r = ''<p>'' \<and> drop (length ?r - 4) ?r = ''</p>'')"
  proof
    assume c: "length ?r > 7 \<and> take 3 ?r = ''<p>'' \<and> drop (length ?r - 4) ?r = ''</p>''"
    then have "?r = ''<p>'' @ take (length ?r - 7) (drop 3 ?r) @ ''</p>''"
      by (intro wrapped_shape) simp_all
    moreover from c have "take (length ?r - 7) (drop 3 ?r) \<noteq> []" by simp
    ultimately show False using no by blast
  qed
  then have nc: "(length ?r > 7 \<and> take 3 ?r = ''<p>'' \<and> drop (length ?r - 4) ?r = ''</p>'') = False"
    by blast
  show "parse_markdown env text = ?r"
    unfolding parse_markdown_def Let_def by (simp only: nc if_False)
qed

text \<open>
  The theorem at work: \<open>Hello\<close> is rendered as one paragraph and comes back bare; the
  empty text is rendered as the empty text and is returned as it is.
\<close>

theorem paragraph_wrapper_witness:
  "parse_markdown site ''Hello'' = ''Hello''
   \<and> parse_markdown site [] = markdown site []"
proof -
  have one: "markdown site (replace_str (strip_char (CHR 0x22) ''Hello'') (backslash @ backslash) ''<br />'')
               = ''<p>'' @ ''Hello'' @ ''</p>''"
    by (simp add: site_def strip_char_def backslash_def plain_markdown_def)
  have none: "\<nexists>inner. inner \<noteq> [] \<and>
          markdown site (replace_str (strip_char (CHR 0x22) []) (backslash @ backslash) ''<br />'')
            = ''<p>'' @ inner @ ''</p>''"
    by (simp add: site_def strip_char_def backslash_def plain_markdown_def)
  from paragraph_wrapper[of site "''Hello''" "''Hello''", THEN conjunct1, rule_format, OF one]
       paragraph_wrapper[of site "[]", THEN conjunct2, rule_format, OF none]
  show ?thesis by (simp add: strip_char_def backslash_def)
qed

subsection \<open>Defects\<close>

text \<open>
  C3 holds for \<open>_cn\<close>, which is compared with the last three characters of the name,
  and not for \<open>_en\<close>, which is searched anywhere in the name (\<open>find\<close>) before the last
  three characters are cut off. With \<open>my_entry\<close> in the Chinese catalog, which is the
  current one, the reference \<open>{{my_entry}}\<close> is looked up as \<open>my_en\<close> in the English
  catalog and is not resolved, where the claim has it looked up unmodified in the
  current language.
\<close>

theorem forced_suffix_interior:
  "force_language (site\<lparr>lang_cn := [''my_entry'' \<mapsto> ''Mine''], lang_current := [''my_entry'' \<mapsto> ''Mine'']\<rparr>)
       ''my_entry''
     = (lang_en site, ''my_en'')
   \<and> parse_variable
       (site\<lparr>lang_cn := [''my_entry'' \<mapsto> ''Mine''], lang_current := [''my_entry'' \<mapsto> ''Mine'']\<rparr>)
       new_compiler (disk Map.empty)
       ''{{my_entry}}'' =
     Some (''{{my_entry}}'',
           \<lparr>files = Map.empty, unwritable = {},
            events = [LogWarning ''Cannot find variable my_en in current lang.'',
                      LogError ''Cannot find English variable my_en.'']\<rparr>)"
  by (simp add: parse_variable.simps site_def variable_at_def word_char_def parse_variable_body_def
      force_language_def redirect_def new_compiler_def Let_def disk_def log_event_def)

text \<open>
  C7. \<open>compile_publication\<close> and \<open>compile_art\<close> look their file up in \<open>built_html\<close> and
  never store into it (only \<open>compile\<close> does, under the name relative to the templates
  directory), so the rendering of an embed is not there for the next embed of the same
  file: a page with the same publication embed on two lines reads the embedded file
  twice and renders it twice, and the cache ends with the page as its only entry.
\<close>

theorem embed_rendered_twice:
  "compile (Suc 0) site
     (disk [''t/p'' \<mapsto> ''<!-- publication: pub -->'' @ [CHR 0x0A] @ ''<!-- publication: pub -->'',
            ''t/pub'' \<mapsto> ''<!-- all -->'' @ [CHR 0x0A] @ ''item''])
     new_compiler ''p'' False =
   Some (Inr (''itemitem'',
     \<lparr>files = [''t/p'' \<mapsto> ''<!-- publication: pub -->'' @ [CHR 0x0A] @ ''<!-- publication: pub -->'',
               ''t/pub'' \<mapsto> ''<!-- all -->'' @ [CHR 0x0A] @ ''item''],
      unwritable = {},
      events = [FileRead ''t/p'', FileRead ''t/pub'', FileRead ''t/pub'']\<rparr>,
     new_compiler\<lparr>built_html := [''p'' \<mapsto> ''itemitem'']\<rparr>))"
  by (simp add: parse_variable.simps site_def variable_at_def word_char_def
      new_compiler_def Let_def disk_def log_event_def read_file_def posix_join_def
      assign_at_def directive_at_def image_at_def compile_embeds_def compile_image_def
      compile_publication_def conditions_of_def)

subsection \<open>Termination of variable resolution\<close>

text \<open>
  In the catalog of \<open>cyc\<close> neither value holds a reference, yet each closes a reference
  with the text around it: \<open>{{a}}}}\<close> becomes \<open>{{{{b}}\<close>, which becomes \<open>{{a}}}}\<close> again.
\<close>

lemma cyc_match_a: "VARIABLE cyc ''{{a}}}}'' = Some (''{{a}}'', ''a'')"
  by (simp add: cyc_def site_def variable_at_def word_char_def)
lemma cyc_match_b: "VARIABLE cyc ''{{{{b}}'' = Some (''{{b}}'', ''b'')"
  by (simp add: cyc_def site_def variable_at_def word_char_def)
lemma cyc_step_a: "parse_variable_body cyc new_compiler w ''{{a}}}}'' ''{{a}}'' ''a'' = Continue ''{{{{b}}'' w"
  by (simp add: cyc_def site_def parse_variable_body_def
      force_language_def redirect_def new_compiler_def parse_markdown_def strip_char_def
      backslash_def plain_markdown_def Let_def)
lemma cyc_step_b: "parse_variable_body cyc new_compiler w ''{{{{b}}'' ''{{b}}'' ''b'' = Continue ''{{a}}}}'' w"
  by (simp add: cyc_def site_def parse_variable_body_def
      force_language_def redirect_def new_compiler_def parse_markdown_def strip_char_def
      backslash_def plain_markdown_def Let_def)
lemma cyc_values: "VARIABLE cyc (parse_markdown cyc ''{{{{b'') = None \<and> VARIABLE cyc (parse_markdown cyc ''a}}}}'') = None"
  by (simp add: cyc_def site_def variable_at_def word_char_def parse_markdown_def strip_char_def
      backslash_def plain_markdown_def Let_def)

lemma cyc_never_returns:
  "parse_variable env st w line = Some y \<Longrightarrow>
     \<not> (env = cyc \<and> st = new_compiler \<and> (line = ''{{a}}}}'' \<or> line = ''{{{{b}}''))"
proof (induct rule: parse_variable.raw_induct[rotated 1, consumes 1, case_names step])
  case (step pv env st w line y)
  note ih = step(1) and unfolded = step(2)
  show ?case
  proof
    assume a: "env = cyc \<and> st = new_compiler \<and> (line = ''{{a}}}}'' \<or> line = ''{{{{b}}'')"
    then consider "line = ''{{a}}}}''" | "line = ''{{{{b}}''" by blast
    then show False
    proof cases
      case 1
      with a unfolded have "pv cyc new_compiler w ''{{{{b}}'' = Some y"
        by (simp add: cyc_match_a cyc_step_a)
      from ih[OF this] show False by simp
    next
      case 2
      with a unfolded have "pv cyc new_compiler w ''{{a}}}}'' = Some y"
        by (simp add: cyc_match_b cyc_step_b)
      from ih[OF this] show False by simp
    qed
  qed
qed

text \<open>
  C10, as stated, fails: no value of the catalog, rendered by \<open>parse_markdown\<close>, holds a
  variable reference, and \<open>parse_variable\<close> never returns on the line \<open>{{a}}}}\<close>. The
  number of references in the line is one before and after every pass.
\<close>

theorem resolution_cycle:
  "VARIABLE cyc (parse_markdown cyc ''{{{{b'') = None
   \<and> VARIABLE cyc (parse_markdown cyc ''a}}}}'') = None
   \<and> parse_variable cyc new_compiler (disk Map.empty) ''{{a}}}}'' = None"
proof -
  have "parse_variable cyc new_compiler (disk Map.empty) ''{{a}}}}'' = None"
  proof (cases "parse_variable cyc new_compiler (disk Map.empty) ''{{a}}}}''")
    case None
    then show ?thesis .
  next
    case (Some y)
    from cyc_never_returns[OF this] show ?thesis by simp
  qed
  with cyc_values show ?thesis by simp
qed


text \<open>
  A replacement whose old text holds a character that the new text lacks does not add
  occurrences of this character, and removes one when the old text occurs.
\<close>

lemma count_replace_str:
  assumes "c \<in> set old" "c \<notin> set new"
  shows "count_list (replace_str s old new) c \<le> count_list s c
         \<and> (sublist old s \<longrightarrow> count_list (replace_str s old new) c < count_list s c)"
  using assms
proof (induction s old new rule: replace_str.induct)
  case (1 old new)
  then show ?case by auto
next
  case (2 x xs old new)
  from "2.prems" have ne: "old \<noteq> []" by auto
  show ?case
  proof (cases "prefix old (x # xs)")
    case True
    then obtain rest where r: "x # xs = old @ rest" by (auto simp: prefix_def)
    with ne have d: "drop (length old - 1) xs = rest"
      by (cases old) auto
    from "2.IH"(2)[OF ne True "2.prems"] d
    have "count_list (replace_str rest old new) c \<le> count_list rest c" by simp
    moreover from "2.prems"(1) have "0 < count_list old c"
      by (metis count_list_0_iff gr0I)
    moreover have "count_list (x # xs) c = count_list old c + count_list rest c"
      by (simp only: r count_list_append)
    moreover from "2.prems"(2) have "count_list new c = 0"
      by (simp add: count_list_0_iff)
    ultimately show ?thesis using ne True d by simp
  next
    case False
    then have s: "sublist old (x # xs) \<longrightarrow> sublist old xs"
      by (simp add: sublist_Cons_right)
    from "2.IH"(3)[OF ne False "2.prems"] s ne False show ?thesis by auto
  qed
qed

lemma body_continue:
  assumes "parse_variable_body env st w line g0 g1 = Continue line1 w1"
  shows "\<exists>name v. (lang_en env name = Some v \<or> lang_cn env name = Some v \<or> lang_current env name = Some v)
           \<and> line1 = replace_str line g0 (parse_markdown env v)"
  using assms
  by (auto simp: parse_variable_body_def force_language_def Let_def
      split: if_splits option.splits prod.splits)

lemma body_decreases:
  assumes pat: "\<forall>l g0 g1. VARIABLE env l = Some (g0, g1) \<longrightarrow> sublist g0 l \<and> CHR ''{'' \<in> set g0"
    and cat: "\<forall>name v. lang_en env name = Some v \<or> lang_cn env name = Some v \<or> lang_current env name = Some v
                \<longrightarrow> CHR ''{'' \<notin> set (parse_markdown env v)"
    and m: "VARIABLE env line = Some (g0, g1)"
    and b: "parse_variable_body env st w line g0 g1 = Continue line1 w1"
  shows "count_list line1 CHR ''{'' < count_list line CHR ''{''"
proof -
  from body_continue[OF b] obtain name v where
    v: "lang_en env name = Some v \<or> lang_cn env name = Some v \<or> lang_current env name = Some v"
    and l1: "line1 = replace_str line g0 (parse_markdown env v)"
    by blast
  from cat v have "CHR ''{'' \<notin> set (parse_markdown env v)" by blast
  moreover from pat m have "sublist g0 line" "CHR ''{'' \<in> set g0" by blast+
  ultimately show ?thesis
    using count_replace_str[of "CHR ''{''" g0 "parse_markdown env v" line] l1 by simp
qed

lemma parse_variable_returns:
  assumes pat: "\<forall>l g0 g1. VARIABLE env l = Some (g0, g1) \<longrightarrow> sublist g0 l \<and> CHR ''{'' \<in> set g0"
    and cat: "\<forall>name v. lang_en env name = Some v \<or> lang_cn env name = Some v \<or> lang_current env name = Some v
                \<longrightarrow> CHR ''{'' \<notin> set (parse_markdown env v)"
  shows "\<exists>r. parse_variable env st w line = Some r"
proof (induction "count_list line CHR ''{''" arbitrary: line w rule: less_induct)
  case less
  show ?case
  proof (cases "VARIABLE env line")
    case None
    then show ?thesis by (subst parse_variable.simps) simp
  next
    case (Some g)
    obtain g0 g1 where g: "g = (g0, g1)" by (cases g)
    show ?thesis
    proof (cases "parse_variable_body env st w line g0 g1")
      case (Break w1)
      with Some g show ?thesis by (subst parse_variable.simps) simp
    next
      case (Continue line1 w1)
      from body_decreases[OF pat cat Some[unfolded g] Continue]
      have "\<exists>r. parse_variable env st w1 line1 = Some r" by (rule less)
      with Some g Continue show ?thesis by (subst parse_variable.simps) simp
    qed
  qed
qed

text \<open>
  C10, amended. When no catalog value, rendered by \<open>parse_markdown\<close>, holds the opening
  brace, \<open>parse_variable\<close> returns on every line, and every pass of the loop that
  substitutes lowers the number of opening braces in the line. The pattern
  \<open>Regex.VARIABLE\<close> is not among the sources; what is used of it is that a match is a
  part of the line searched and holds an opening brace, as a match of \<open>{{name}}\<close> does.
\<close>

theorem resolution_terminates:
  assumes pat: "\<forall>l g0 g1. VARIABLE env l = Some (g0, g1) \<longrightarrow> sublist g0 l \<and> CHR ''{'' \<in> set g0"
    and cat: "\<forall>name v. lang_en env name = Some v \<or> lang_cn env name = Some v \<or> lang_current env name = Some v
                \<longrightarrow> CHR ''{'' \<notin> set (parse_markdown env v)"
  shows "(\<exists>r. parse_variable env st w line = Some r)
       \<and> (\<forall>g0 g1 line1 w1. VARIABLE env line = Some (g0, g1) \<longrightarrow>
             parse_variable_body env st w line g0 g1 = Continue line1 w1 \<longrightarrow>
             count_list line1 CHR ''{'' < count_list line CHR ''{'')"
  using parse_variable_returns[OF pat cat] body_decreases[OF pat cat] by blast


text \<open>The pattern of the concrete site is such a pattern.\<close>

lemma variable_at_shape:
  assumes "variable_at s = Some (g0, g1)"
  shows "prefix g0 s \<and> CHR ''{'' \<in> set g0"
proof -
  from assms have p: "prefix ''{{'' s"
    and g0: "g0 = ''{{'' @ takeWhile word_char (drop 2 s) @ ''}}''"
    and q: "prefix ''}}'' (dropWhile word_char (drop 2 s))"
    by (auto simp: variable_at_def Let_def split: if_splits)
  from q obtain more where "dropWhile word_char (drop 2 s) = ''}}'' @ more"
    by (auto simp: prefix_def)
  then have "drop 2 s = takeWhile word_char (drop 2 s) @ ''}}'' @ more"
    by (metis takeWhile_dropWhile_id)
  moreover from p have "s = ''{{'' @ drop 2 s"
    by (auto simp: prefix_def)
  ultimately have "s = g0 @ more"
    using g0 by simp
  then have "prefix g0 s" by (simp add: prefix_def)
  moreover from g0 have "CHR ''{'' \<in> set g0" by simp
  ultimately show ?thesis by simp
qed

lemma search_variable_shape:
  "search_first variable_at l = Some (g0, g1) \<Longrightarrow> sublist g0 l \<and> CHR ''{'' \<in> set g0"
proof (induction l)
  case Nil
  then show ?case by (simp add: variable_at_def)
next
  case (Cons c cs)
  show ?case
  proof (cases "variable_at (c # cs)")
    case None
    with Cons show ?thesis by (auto simp: sublist_Cons_right)
  next
    case (Some m)
    with Cons.prems have "variable_at (c # cs) = Some (g0, g1)" by simp
    from variable_at_shape[OF this] show ?thesis
      by (auto intro: prefix_imp_sublist)
  qed
qed

text \<open>
  The theorem at work: on the concrete site, a line with an alias, a name of the English
  catalog only and an unknown name.
\<close>

theorem resolution_terminates_witness:
  "\<exists>r. parse_variable site (new_compiler\<lparr>assign_dict := [''t'' \<mapsto> ''title'']\<rparr>) (disk Map.empty)
          ''{{t}} {{motto}} {{nope}}'' = Some r"
proof -
  have pat: "\<forall>l g0 g1. VARIABLE site l = Some (g0, g1) \<longrightarrow> sublist g0 l \<and> CHR ''{'' \<in> set g0"
    using search_variable_shape by (simp add: site_def)
  have cat: "\<forall>name v. lang_en site name = Some v \<or> lang_cn site name = Some v \<or> lang_current site name = Some v
                \<longrightarrow> CHR ''{'' \<notin> set (parse_markdown site v)"
    by (auto simp: site_def parse_markdown_def strip_char_def backslash_def plain_markdown_def Let_def
        split: if_splits)
  from resolution_terminates[OF pat cat] show ?thesis by blast
qed

end
